theory Spec2Isabelle
  imports Complex_Main "HOL-Library.Multiset"
begin

section \<open>The texturing driver of \<open>examples/task7/class7_texrecon.cpp\<close>\<close>

text \<open>
  The source file holds one function, \<open>main\<close>: it parses the arguments, loads the mesh,
  builds the face adjacency graph, obtains a labeling (computed by the MRF optimiser or
  read from a file), generates and levels the texture patches, packs them into atlases
  and writes the model. Every library routine it calls lives outside the file. The model
  below is \<open>main\<close> with explicit state passing:
  \<^item> what the called routines hand back (parsed arguments, the mesh, the number of
    views, a thrown exception, the content of the labeling file, the generated patches)
    is read from a record \<open>World\<close>;
  \<^item> each call with an effect appends an \<open>event\<close> to the run's trace, in program
    order, with the arguments of the call that matter; the iterations of the one
    OpenMP loop (lines 185 to 192) are listed in the order the world's schedule gives
    them, which is any order;
  \<^item> \<open>std::exit\<close> ends the run with the status given; falling off the end of
    \<open>main\<close> ends it with \<open>EXIT_SUCCESS\<close>.
  Wall-clock output (the \<open>Took: ...s\<close> lines), the \<open>Timer::measure\<close> calls, the
  progress counter and the line ends of the messages are left out; sizes, indices and
  labels are \<open>std::size_t\<close> in the source and natural numbers here, and the one product
  the source computes on them is taken modulo \<open>2 ^ 64\<close>.
\<close>

subsection \<open>Configuration\<close>

record Settings =
  global_seam_leveling :: bool
  local_seam_leveling :: bool

record Arguments =
  in_scene :: string
  in_mesh :: string
  out_prefix :: string
  data_cost_file :: string
  labeling_file :: string
  settings :: Settings
  write_timings :: bool
  write_intermediate_results :: bool
  write_view_selection_model :: bool

datatype exit_status = EXIT_SUCCESS | EXIT_FAILURE

text \<open>The value handed to the operating system (\<open>stdlib.h\<close>: 0 and 1).\<close>

fun exit_code :: "exit_status \<Rightarrow> int" where
  "exit_code EXIT_SUCCESS = 0"
| "exit_code EXIT_FAILURE = 1"

subsection \<open>Mesh and adjacency graph\<close>

text \<open>
  \<open>core::TriangleMesh\<close>: \<open>get_faces()\<close> is the flat vector of vertex indices, three
  per face.
\<close>

record TriangleMesh =
  get_faces :: "nat list"

text \<open>
  Modelled from the spec: \<open>tex::Graph\<close> (its header is not part of the source file).
  The spec has one node per face, an adjacency list per node and a mutable label per
  node, kept in a node array indexed by face id; a node not yet labelled holds the
  reserved invalid value, which the constructor takes here as \<open>unlabeled\<close>.
\<close>

record Graph =
  adj_lists :: "nat list list"
  labels :: "nat list"

definition Graph_ctor :: "nat \<Rightarrow> nat \<Rightarrow> Graph" where
  "Graph_ctor unlabeled n = \<lparr>adj_lists = replicate n [], labels = replicate n unlabeled\<rparr>"

definition num_nodes :: "Graph \<Rightarrow> nat" where
  "num_nodes g = length (adj_lists g)"

definition set_label :: "Graph \<Rightarrow> nat \<Rightarrow> nat \<Rightarrow> Graph" where
  "set_label g n label = g\<lparr>labels := (labels g)[n := label]\<rparr>"

definition get_label :: "Graph \<Rightarrow> nat \<Rightarrow> nat" where
  "get_label g n = labels g ! n"

text \<open>
  Modelled from the spec: \<open>tex::build_adjacency_graph\<close>, which adds an edge between any
  two faces that share a mesh edge (two shared vertices) and leaves nodes and labels
  alone.
\<close>

definition face_vertices :: "TriangleMesh \<Rightarrow> nat \<Rightarrow> nat list" where
  "face_vertices mesh f = take 3 (drop (3 * f) (get_faces mesh))"

definition share_edge :: "TriangleMesh \<Rightarrow> nat \<Rightarrow> nat \<Rightarrow> bool" where
  "share_edge mesh f f' =
     (f \<noteq> f' \<and> 2 \<le> length (filter (\<lambda>v. v \<in> set (face_vertices mesh f')) (face_vertices mesh f)))"

definition build_adjacency_graph :: "TriangleMesh \<Rightarrow> Graph \<Rightarrow> Graph" where
  "build_adjacency_graph mesh g =
     g\<lparr>adj_lists := map (\<lambda>f. filter (share_edge mesh f) [0..<num_nodes g]) [0..<num_nodes g]\<rparr>"

subsection \<open>Texture patches\<close>

type_synonym Vec3f = "real \<times> real \<times> real"

definition vec_zero :: Vec3f where
  "vec_zero = (0, 0, 0)"

fun vec_add :: "Vec3f \<Rightarrow> Vec3f \<Rightarrow> Vec3f" where
  "vec_add (a, b, c) (a', b', c') = (a + a', b + b', c + c')"

fun vec_scale :: "real \<Rightarrow> Vec3f \<Rightarrow> Vec3f" where
  "vec_scale k (a, b, c) = (k * a, k * b, k * c)"

text \<open>
  Modelled from the spec: \<open>TexturePatch\<close> and its \<open>adjust_colors\<close> (the class is not part
  of the source file). A patch is a group of faces of one label with its rasterised
  image and a validity mask. A pixel of the image is covered by at most one projected
  face of the patch, at barycentric coordinates; covered pixels are the valid ones.
  \<open>adjust_colors\<close> takes three adjustment values per face (one per corner), marks the
  covered pixels valid and adds to each of them the adjustment interpolated over its
  face. Colours are real numbers here, not single-precision floats.
\<close>

record Pixel =
  color :: Vec3f
  valid :: bool
  covered_by :: "(nat \<times> real \<times> real \<times> real) option"

record TexturePatch =
  patch_label :: nat
  patch_faces :: "nat list"
  pixels :: "Pixel list"

definition adjust_pixel :: "Vec3f list \<Rightarrow> Pixel \<Rightarrow> Pixel" where
  "adjust_pixel adjust_values px =
     (case covered_by px of
        None \<Rightarrow> px\<lparr>valid := False\<rparr>
      | Some (f, a, b, c) \<Rightarrow>
          px\<lparr>valid := True,
             color := vec_add (color px)
               (vec_add (vec_scale a (adjust_values ! (3 * f)))
                  (vec_add (vec_scale b (adjust_values ! (3 * f + 1)))
                     (vec_scale c (adjust_values ! (3 * f + 2)))))\<rparr>)"

definition adjust_colors :: "TexturePatch \<Rightarrow> Vec3f list \<Rightarrow> TexturePatch" where
  "adjust_colors tp adjust_values = tp\<lparr>pixels := map (adjust_pixel adjust_values) (pixels tp)\<rparr>"

text \<open>
  Every covered pixel names a face of the patch: what the rasteriser of the patch
  generator guarantees, and what keeps the reads of \<open>adjust_pixel\<close> in range.
\<close>

definition patch_ok :: "TexturePatch \<Rightarrow> bool" where
  "patch_ok tp =
     (length (patch_faces tp) * 3 < 2 ^ 64 \<and>
      list_all (\<lambda>px. case covered_by px of None \<Rightarrow> True
                     | Some (f, a, b, c) \<Rightarrow> f < length (patch_faces tp)) (pixels tp))"

subsection \<open>The world outside \<open>main\<close>\<close>

text \<open>
  One field per routine whose result \<open>main\<close> looks at. An exception that \<open>main\<close>
  catches is the \<open>Inl\<close> (or \<open>Some\<close>) of its \<open>what()\<close> text; a routine called
  outside a \<open>try\<close> block is taken to return. \<open>invalid_label\<close> is the reserved
  invalid label of the graph header. The leveling routines and the patch generator
  hand back the patches they leave behind. \<open>omp_rank\<close> is the schedule of the OpenMP
  loop: the iterations run by ascending rank, so every order of the iterations is the
  schedule of some world.
\<close>

record World =
  parse_args_result :: "string + Arguments"
  dir_exists_result :: bool
  load_ply_mesh_result :: "string + TriangleMesh"
  texture_views_size :: nat
  invalid_label :: nat
  load_from_file_exception :: "string option"
  view_selection_result :: "nat \<Rightarrow> nat"
  vector_from_file_result :: "nat list"
  generate_texture_patches_result :: "Graph \<Rightarrow> TexturePatch list"
  global_seam_leveling_result :: "TexturePatch list \<Rightarrow> TexturePatch list"
  local_seam_leveling_result :: "TexturePatch list \<Rightarrow> TexturePatch list"
  generate_debug_patches_result :: "Graph \<Rightarrow> TexturePatch list"
  omp_rank :: "nat \<Rightarrow> nat"

datatype event =
    Stdout string
  | Stderr string
  | PrepareMesh
  | GenerateTextureViews string
  | WriteStringToFile string
  | GraphCtor nat
  | BuildAdjacencyGraph
  | CalculateDataCosts
  | SaveToFile string
  | LoadFromFile string
  | ViewSelection
  | VectorToFile string "nat list"
  | VectorFromFile string
  | SetLabel nat nat
  | GenerateTexturePatches Graph
  | GlobalSeamLeveling
  | AdjustColors nat "Vec3f list"
  | LocalSeamLeveling
  | GenerateTextureAtlases "TexturePatch list"
  | BuildModel
  | ModelSave string
  | TimerWriteToFile string
  | GenerateDebugEmbeddings

record Run =
  events :: "event list"
  status :: exit_status
  graph_at_exit :: "Graph option"

definition wrong_labeling :: string where
  "wrong_labeling = ''Wrong labeling file for this mesh/scene combination... aborting!''"

subsection \<open>\<open>main\<close>, lines 39 to 75: arguments, mesh, views\<close>

definition startup :: "World \<Rightarrow> (event list \<times> exit_status) + (event list \<times> Arguments \<times> TriangleMesh)" where
  "startup w =
     (case parse_args_result w of
        Inl ia \<Rightarrow> Inl ([Stderr ia], EXIT_FAILURE)
      | Inr conf \<Rightarrow>
          if \<not> dir_exists_result w
          then Inl ([Stderr ''Destination directory does not exist!''], EXIT_FAILURE)
          else
            (case load_ply_mesh_result w of
               Inl e \<Rightarrow>
                 Inl ([Stdout ''Load and prepare mesh: '',
                       Stderr (CHR 0x09 # ''Could not load mesh: '' @ e)], EXIT_FAILURE)
             | Inr mesh \<Rightarrow>
                 Inr ([Stdout ''Load and prepare mesh: '',
                       PrepareMesh,
                       Stdout ''Generating texture views: '',
                       GenerateTextureViews (in_scene conf),
                       WriteStringToFile (out_prefix conf @ ''.conf'')], conf, mesh)))"

subsection \<open>Lines 91 to 155: view selection\<close>

text \<open>Modelled from the spec: \<open>tex::view_selection\<close> writes a label into every node.\<close>

definition view_selection :: "World \<Rightarrow> Graph \<Rightarrow> Graph" where
  "view_selection w g = g\<lparr>labels := map (view_selection_result w) [0..<num_nodes g]\<rparr>"

text \<open>
  Lines 92 to 133, the branch of an empty \<open>conf.labeling_file\<close>. The result is the
  events, the status of \<open>std::exit\<close> if it was called, and the graph.
\<close>

definition compute_labeling :: "Arguments \<Rightarrow> World \<Rightarrow> Graph \<Rightarrow> event list \<times> exit_status option \<times> Graph" where
  "compute_labeling conf w g =
     (if data_cost_file conf = [] then
        (let g' = view_selection w g in
         ([Stdout ''View selection:'', CalculateDataCosts]
          @ (if write_intermediate_results conf
             then [Stdout (CHR 0x09 # ''Writing data cost file... ''),
                   SaveToFile (out_prefix conf @ ''_data_costs.spt''),
                   Stdout ''done.'']
             else [])
          @ [ViewSelection]
          @ (if write_intermediate_results conf
             then [VectorToFile (out_prefix conf @ ''_labeling.vec'')
                     (map (get_label g') [0..<num_nodes g'])]
             else []),
          None, g'))
      else
        (case load_from_file_exception w of
           Some e \<Rightarrow>
             ([Stdout ''View selection:'',
               Stdout (CHR 0x09 # ''Loading data cost file... ''),
               LoadFromFile (data_cost_file conf),
               Stdout ''failed!'',
               Stderr e], Some EXIT_FAILURE, g)
         | None \<Rightarrow>
             (let g' = view_selection w g in
              ([Stdout ''View selection:'',
                Stdout (CHR 0x09 # ''Loading data cost file... ''),
                LoadFromFile (data_cost_file conf),
                Stdout ''done.'',
                ViewSelection]
               @ (if write_intermediate_results conf
                  then [VectorToFile (out_prefix conf @ ''_labeling.vec'')
                          (map (get_label g') [0..<num_nodes g'])]
                  else []),
               None, g'))))"

text \<open>
  Lines 145 to 152, the loop over the loaded labeling: \<open>transfer_labeling nv ls i g\<close>
  runs it from index \<open>i\<close> on, \<open>ls\<close> being the elements from \<open>i\<close> to the end.
\<close>

fun transfer_labeling :: "nat \<Rightarrow> nat list \<Rightarrow> nat \<Rightarrow> Graph \<Rightarrow> event list \<times> exit_status option \<times> Graph" where
  "transfer_labeling nv [] i g = ([], None, g)"
| "transfer_labeling nv (label # ls) i g =
     (if label > nv then ([Stderr wrong_labeling], Some EXIT_FAILURE, g)
      else (case transfer_labeling nv ls (Suc i) (set_label g i label) of
              (es, ex, g') \<Rightarrow> (SetLabel i label # es, ex, g')))"

text \<open>Lines 135 to 154, the branch of a given \<open>conf.labeling_file\<close>.\<close>

definition load_labeling :: "Arguments \<Rightarrow> World \<Rightarrow> Graph \<Rightarrow> event list \<times> exit_status option \<times> Graph" where
  "load_labeling conf w g =
     (let labeling = vector_from_file_result w in
      if length labeling \<noteq> num_nodes g
      then ([Stdout ''Loading labeling from file... '',
             VectorFromFile (labeling_file conf),
             Stderr wrong_labeling], Some EXIT_FAILURE, g)
      else (case transfer_labeling (texture_views_size w) labeling 0 g of
              (es, Some st, g') \<Rightarrow>
                ([Stdout ''Loading labeling from file... '',
                  VectorFromFile (labeling_file conf)] @ es, Some st, g')
            | (es, None, g') \<Rightarrow>
                ([Stdout ''Loading labeling from file... '',
                  VectorFromFile (labeling_file conf)] @ es @ [Stdout ''done.''], None, g')))"

text \<open>Lines 91 to 155: one branch or the other.\<close>

definition select_views :: "Arguments \<Rightarrow> World \<Rightarrow> Graph \<Rightarrow> event list \<times> exit_status option \<times> Graph" where
  "select_views conf w g =
     (if labeling_file conf = [] then compute_labeling conf w g else load_labeling conf w g)"

subsection \<open>Lines 161 to 210: patches, seam leveling, atlases\<close>

text \<open>Line 189: the vector of \<open>get_faces().size() * 3\<close> zero adjustments.\<close>

definition patch_adjust_values :: "TexturePatch \<Rightarrow> Vec3f list" where
  "patch_adjust_values tp = replicate ((length (patch_faces tp) * 3) mod 2 ^ 64) vec_zero"

text \<open>
  Lines 184 to 192, \<open>#pragma omp parallel for schedule(dynamic)\<close>. Iteration \<open>i\<close>
  calls \<open>adjust_colors\<close> on patch \<open>i\<close> alone, so the patches the loop leaves behind do
  not depend on the schedule; the order of the calls does, and is that of the ranks the
  world gives the iterations. The loop is over when all iterations are.
\<close>

definition calculate_validity_masks :: "World \<Rightarrow> TexturePatch list \<Rightarrow> event list \<times> TexturePatch list" where
  "calculate_validity_masks w tps =
     (map (\<lambda>i. AdjustColors i (patch_adjust_values (tps ! i)))
        (sort_key (omp_rank w) [0..<length tps]),
      map (\<lambda>tp. adjust_colors tp (patch_adjust_values tp)) tps)"

text \<open>Lines 175 to 194.\<close>

definition global_leveling :: "Arguments \<Rightarrow> World \<Rightarrow> TexturePatch list \<Rightarrow> event list \<times> TexturePatch list" where
  "global_leveling conf w tps =
     (if global_seam_leveling (settings conf)
      then ([Stdout ''Running global seam leveling:'', GlobalSeamLeveling],
            global_seam_leveling_result w tps)
      else calculate_validity_masks w tps)"

text \<open>Lines 198 to 201.\<close>

definition local_leveling :: "Arguments \<Rightarrow> World \<Rightarrow> TexturePatch list \<Rightarrow> event list \<times> TexturePatch list" where
  "local_leveling conf w tps =
     (if local_seam_leveling (settings conf)
      then ([Stdout ''Running local seam leveling:'', LocalSeamLeveling],
            local_seam_leveling_result w tps)
      else ([], tps))"

definition texture_atlases :: "Arguments \<Rightarrow> World \<Rightarrow> Graph \<Rightarrow> event list" where
  "texture_atlases conf w g =
     (case global_leveling conf w (generate_texture_patches_result w g) of
        (es1, tps1) \<Rightarrow>
          (case local_leveling conf w tps1 of
             (es2, tps2) \<Rightarrow>
               [Stdout ''Generating texture patches:'', GenerateTexturePatches g]
               @ es1 @ es2
               @ [Stdout ''Generating texture atlases:'', GenerateTextureAtlases tps2]))"

subsection \<open>Lines 215 to 252: the model, the timings, the debug model\<close>

definition write_model :: "Arguments \<Rightarrow> event list" where
  "write_model conf =
     [Stdout ''Building objmodel:'', BuildModel,
      Stdout (CHR 0x09 # ''Saving model... ''), ModelSave (out_prefix conf), Stdout ''done.'']
     @ (if write_timings conf then [TimerWriteToFile (out_prefix conf @ ''_timings.csv'')] else [])"

definition view_selection_model :: "Arguments \<Rightarrow> World \<Rightarrow> Graph \<Rightarrow> event list" where
  "view_selection_model conf w g =
     (if write_view_selection_model conf
      then [Stdout ''Generating debug texture patches:'',
            GenerateDebugEmbeddings,
            GenerateTexturePatches g,
            GenerateTextureAtlases (generate_debug_patches_result w g),
            Stdout ''Building debug objmodel:'',
            BuildModel,
            Stdout (CHR 0x09 # ''Saving model... ''),
            ModelSave (out_prefix conf @ ''_view_selection''),
            Stdout ''done.'']
      else [])"

subsection \<open>\<open>main\<close>\<close>

text \<open>Lines 70, 80 and 81: the graph over \<open>num_faces\<close> nodes, with its edges.\<close>

definition adjacency_graph :: "World \<Rightarrow> TriangleMesh \<Rightarrow> Graph" where
  "adjacency_graph w mesh =
     (let num_faces = length (get_faces mesh) div 3
      in build_adjacency_graph mesh (Graph_ctor (invalid_label w) num_faces))"

definition main :: "World \<Rightarrow> Run" where
  "main w =
     (case startup w of
        Inl (es, st) \<Rightarrow> \<lparr>events = es, status = st, graph_at_exit = None\<rparr>
      | Inr (es0, conf, mesh) \<Rightarrow>
          (let graph = adjacency_graph w mesh;
               es1 = es0 @ [Stdout ''Building adjacency graph: '',
                            GraphCtor (length (get_faces mesh) div 3),
                            BuildAdjacencyGraph]
           in case select_views conf w graph of
                (es2, Some st, g) \<Rightarrow>
                  \<lparr>events = es1 @ es2, status = st, graph_at_exit = Some g\<rparr>
              | (es2, None, g) \<Rightarrow>
                  \<lparr>events = es1 @ es2 @ texture_atlases conf w g @ write_model conf
                             @ view_selection_model conf w g,
                   status = EXIT_SUCCESS, graph_at_exit = Some g\<rparr>))"

subsection \<open>Reading a run\<close>

text \<open>The run got past line 60: arguments parsed, output directory there, mesh loaded.\<close>

definition loaded :: "World \<Rightarrow> Arguments \<Rightarrow> TriangleMesh \<Rightarrow> bool" where
  "loaded w conf mesh =
     (parse_args_result w = Inr conf \<and> dir_exists_result w \<and> load_ply_mesh_result w = Inr mesh)"

fun is_generate_texture_patches :: "event \<Rightarrow> bool" where
  "is_generate_texture_patches (GenerateTexturePatches g) = True"
| "is_generate_texture_patches _ = False"

fun is_set_label :: "event \<Rightarrow> bool" where
  "is_set_label (SetLabel i l) = True"
| "is_set_label _ = False"

text \<open>
  An event of the global stage of seam leveling: \<open>global_seam_leveling\<close>, or an
  \<open>adjust_colors\<close> of the loop that stands in for it.
\<close>

fun is_global_stage :: "event \<Rightarrow> bool" where
  "is_global_stage GlobalSeamLeveling = True"
| "is_global_stage (AdjustColors i v) = True"
| "is_global_stage _ = False"

definition patch_generated :: "Run \<Rightarrow> bool" where
  "patch_generated r = list_ex is_generate_texture_patches (events r)"

text \<open>The stages of the pipeline, and the stage a call belongs to.\<close>

datatype stage =
  GraphConstruction | DataCosts | Labeling | PatchGeneration | SeamLeveling | AtlasPacking
  | ModelBuilding

fun stage_index :: "stage \<Rightarrow> nat" where
  "stage_index GraphConstruction = 0"
| "stage_index DataCosts = 1"
| "stage_index Labeling = 2"
| "stage_index PatchGeneration = 3"
| "stage_index SeamLeveling = 4"
| "stage_index AtlasPacking = 5"
| "stage_index ModelBuilding = 6"

fun stage_of :: "event \<Rightarrow> stage option" where
  "stage_of (GraphCtor n) = Some GraphConstruction"
| "stage_of BuildAdjacencyGraph = Some GraphConstruction"
| "stage_of CalculateDataCosts = Some DataCosts"
| "stage_of (SaveToFile f) = Some DataCosts"
| "stage_of (LoadFromFile f) = Some DataCosts"
| "stage_of ViewSelection = Some Labeling"
| "stage_of (VectorToFile f ls) = Some Labeling"
| "stage_of (VectorFromFile f) = Some Labeling"
| "stage_of (SetLabel i l) = Some Labeling"
| "stage_of (GenerateTexturePatches g) = Some PatchGeneration"
| "stage_of GlobalSeamLeveling = Some SeamLeveling"
| "stage_of (AdjustColors i v) = Some SeamLeveling"
| "stage_of LocalSeamLeveling = Some SeamLeveling"
| "stage_of (GenerateTextureAtlases tps) = Some AtlasPacking"
| "stage_of BuildModel = Some ModelBuilding"
| "stage_of (ModelSave f) = Some ModelBuilding"
| "stage_of _ = None"

fun stages :: "event list \<Rightarrow> stage list" where
  "stages [] = []"
| "stages (e # es) = (case stage_of e of None \<Rightarrow> stages es | Some s \<Rightarrow> s # stages es)"

text \<open>
  The labels of a loaded labeling that the loop of lines 145 to 152 stores before it
  stops: those in front of the first one greater than the number of views.
\<close>

definition accepted_prefix :: "nat \<Rightarrow> nat list \<Rightarrow> nat list" where
  "accepted_prefix nv ls = takeWhile (\<lambda>label. \<not> label > nv) ls"

text \<open>An event of the stages up to labeling, or of no stage.\<close>

definition early :: "event \<Rightarrow> bool" where
  "early e = (case stage_of e of None \<Rightarrow> True | Some s \<Rightarrow> stage_index s \<le> 2)"

definition stage_seq :: "event list \<Rightarrow> nat list" where
  "stage_seq es = map stage_index (stages es)"

text \<open>
  The run came to its end with the debug model asked for: lines 233 to 252 have run.
\<close>

definition debug_pass :: "World \<Rightarrow> bool" where
  "debug_pass w =
     (status (main w) = EXIT_SUCCESS
      \<and> (case parse_args_result w of Inl ia \<Rightarrow> False
          | Inr conf \<Rightarrow> write_view_selection_model conf))"

text \<open>
  The spec's set of labels a labeling file may hold: the invalid marker, or a label
  within \<open>[0, numViews)\<close>.
\<close>

definition spec_label_ok :: "nat \<Rightarrow> nat \<Rightarrow> nat \<Rightarrow> bool" where
  "spec_label_ok invalid nv label = (label = invalid \<or> label < nv)"

text \<open>
  What a run has printed and called when the mesh is loaded (lines 53 to 74), and the
  three events of lines 79 to 81.
\<close>

definition loaded_events :: "Arguments \<Rightarrow> event list" where
  "loaded_events conf =
     [Stdout ''Load and prepare mesh: '', PrepareMesh, Stdout ''Generating texture views: '',
      GenerateTextureViews (in_scene conf), WriteStringToFile (out_prefix conf @ ''.conf'')]"

definition graph_events :: "TriangleMesh \<Rightarrow> event list" where
  "graph_events mesh =
     [Stdout ''Building adjacency graph: '', GraphCtor (length (get_faces mesh) div 3),
      BuildAdjacencyGraph]"

text \<open>
  The graph with the labels \<open>ls\<close> written at the indices from \<open>i\<close> on, and the calls of
  \<open>set_label\<close> that write them.
\<close>

definition store :: "Graph \<Rightarrow> nat \<Rightarrow> nat list \<Rightarrow> Graph" where
  "store g i ls = g\<lparr>labels := take i (labels g) @ ls @ drop (i + length ls) (labels g)\<rparr>"

definition set_label_events :: "nat \<Rightarrow> nat list \<Rightarrow> event list" where
  "set_label_events i ls = map (\<lambda>(k, l). SetLabel k l) (zip [i..<i + length ls] ls)"

subsection \<open>Example runs\<close>

text \<open>
  A tetrahedron (four faces) and one patch of two faces with three pixels, of which the
  last is covered by no face. In the example world everything up to the mesh succeeds,
  unlabelled nodes hold 7, the optimiser labels every face 1, the leveling routines
  hand the patches back as they got them, the OpenMP loop runs in index order, and a
  data-cost file, if one is asked for, is not a table file. The second world differs
  in the patches: three of them, the middle one of a single face, and a schedule that
  runs iteration 2 before iteration 1.
\<close>

definition tetrahedron :: TriangleMesh where
  "tetrahedron = \<lparr>get_faces = [0, 1, 2, 0, 1, 3, 0, 2, 3, 1, 2, 3]\<rparr>"

definition example_patch :: TexturePatch where
  "example_patch =
     \<lparr>patch_label = 1, patch_faces = [0, 1],
      pixels = [\<lparr>color = (1, 2, 3), valid = False, covered_by = Some (0, 1, 0, 0)\<rparr>,
                \<lparr>color = (4, 5, 6), valid = False, covered_by = Some (1, 0, 1, 0)\<rparr>,
                \<lparr>color = (7, 8, 9), valid = True, covered_by = None\<rparr>]\<rparr>"

definition example_conf :: "string \<Rightarrow> string \<Rightarrow> bool \<Rightarrow> bool \<Rightarrow> bool \<Rightarrow> Arguments" where
  "example_conf labeling data_costs global local debug =
     \<lparr>in_scene = ''scene'', in_mesh = ''mesh.ply'', out_prefix = ''out'',
      data_cost_file = data_costs, labeling_file = labeling,
      settings = \<lparr>global_seam_leveling = global, local_seam_leveling = local\<rparr>,
      write_timings = False, write_intermediate_results = False,
      write_view_selection_model = debug\<rparr>"

definition example_world :: "Arguments \<Rightarrow> nat \<Rightarrow> nat list \<Rightarrow> World" where
  "example_world conf nv labeling =
     \<lparr>parse_args_result = Inr conf, dir_exists_result = True,
      load_ply_mesh_result = Inr tetrahedron, texture_views_size = nv, invalid_label = 7,
      load_from_file_exception = Some ''Not a SPT file!'',
      view_selection_result = (\<lambda>i. 1), vector_from_file_result = labeling,
      generate_texture_patches_result = (\<lambda>g. [example_patch]),
      global_seam_leveling_result = (\<lambda>tps. tps),
      local_seam_leveling_result = (\<lambda>tps. tps),
      generate_debug_patches_result = (\<lambda>g. [example_patch]),
      omp_rank = (\<lambda>i. i)\<rparr>"

definition small_patch :: TexturePatch where
  "small_patch =
     \<lparr>patch_label = 2, patch_faces = [3],
      pixels = [\<lparr>color = (5, 5, 5), valid = False, covered_by = Some (0, 0, 0, 1)\<rparr>]\<rparr>"

definition three_patch_world :: "Arguments \<Rightarrow> World" where
  "three_patch_world conf =
     (example_world conf 2 [])
       \<lparr>generate_texture_patches_result := (\<lambda>g. [example_patch, small_patch, example_patch]),
        omp_rank := (\<lambda>i. if i = 0 then 0 else 3 - i)\<rparr>"

section \<open>Properties\<close>

subsection \<open>Auxiliary facts\<close>

lemma stages_append: "stages (xs @ ys) = stages xs @ stages ys"
  by (induction xs) (auto split: option.splits)

lemma labels_build: "labels (build_adjacency_graph mesh g) = labels g"
  by (simp add: build_adjacency_graph_def)

lemma num_nodes_adjacency_graph: "num_nodes (adjacency_graph w mesh) = length (get_faces mesh) div 3"
  by (simp add: adjacency_graph_def Graph_ctor_def num_nodes_def build_adjacency_graph_def Let_def)

lemma labels_adjacency_graph:
  "labels (adjacency_graph w mesh) = replicate (length (get_faces mesh) div 3) (invalid_label w)"
  by (simp add: adjacency_graph_def Graph_ctor_def Let_def labels_build)

lemma startup_loaded:
  "loaded w conf mesh \<Longrightarrow> startup w = Inr (loaded_events conf, conf, mesh)"
  by (simp add: loaded_def startup_def loaded_events_def)

text \<open>The events of each part of a run, by kind.\<close>

lemma loaded_events_cases:
  "e \<in> set (loaded_events conf) \<Longrightarrow>
     (\<exists>s. e = Stdout s) \<or> e = PrepareMesh \<or> (\<exists>s. e = GenerateTextureViews s)
     \<or> (\<exists>s. e = WriteStringToFile s)"
  by (auto simp: loaded_events_def)

lemma graph_events_cases:
  "e \<in> set (graph_events mesh) \<Longrightarrow>
     (\<exists>s. e = Stdout s) \<or> (\<exists>n. e = GraphCtor n) \<or> e = BuildAdjacencyGraph"
  by (auto simp: graph_events_def)

lemma set_label_events_cases:
  "e \<in> set (set_label_events i ls) \<Longrightarrow> \<exists>k l. e = SetLabel k l"
  by (auto simp: set_label_events_def)

lemma texture_atlases_cases:
  "e \<in> set (texture_atlases conf w g) \<Longrightarrow>
     (\<exists>s. e = Stdout s) \<or> e = GenerateTexturePatches g \<or> e = GlobalSeamLeveling
     \<or> (\<exists>i v. e = AdjustColors i v) \<or> e = LocalSeamLeveling
     \<or> (\<exists>tps. e = GenerateTextureAtlases tps)"
  by (auto simp: texture_atlases_def global_leveling_def local_leveling_def
      calculate_validity_masks_def split: if_splits)

lemma write_model_cases:
  "e \<in> set (write_model conf) \<Longrightarrow>
     (\<exists>s. e = Stdout s) \<or> e = BuildModel \<or> (\<exists>f. e = ModelSave f) \<or> (\<exists>f. e = TimerWriteToFile f)"
  by (auto simp: write_model_def split: if_splits)

lemma view_selection_model_cases:
  "e \<in> set (view_selection_model conf w g) \<Longrightarrow>
     (\<exists>s. e = Stdout s) \<or> e = GenerateDebugEmbeddings \<or> e = GenerateTexturePatches g
     \<or> (\<exists>tps. e = GenerateTextureAtlases tps) \<or> e = BuildModel \<or> (\<exists>f. e = ModelSave f)"
  by (auto simp: view_selection_model_def split: if_splits)

lemma no_patch_loaded_events:
  "\<not> list_ex is_generate_texture_patches (loaded_events conf @ graph_events mesh)"
  by (simp add: loaded_events_def graph_events_def)

lemma no_patch_set_label_events: "\<not> list_ex is_generate_texture_patches (set_label_events i ls)"
  by (auto simp: list_ex_iff dest!: set_label_events_cases)

lemma texture_atlases_patch: "list_ex is_generate_texture_patches (texture_atlases conf w g)"
  by (simp add: texture_atlases_def split_beta)

lemma texture_atlases_patch_mem: "GenerateTexturePatches g \<in> set (texture_atlases conf w g)"
  by (simp add: texture_atlases_def split_beta)

lemma filter_set_label_head:
  "filter is_set_label (loaded_events conf) = []"
  "filter is_set_label (graph_events mesh) = []"
  by (simp_all add: loaded_events_def graph_events_def)

lemma filter_set_label_events: "filter is_set_label (set_label_events i ls) = set_label_events i ls"
  by (auto simp: set_label_events_def filter_id_conv)

lemma filter_set_label_tail:
  "filter is_set_label (texture_atlases conf w g) = []"
  "filter is_set_label (write_model conf) = []"
  "filter is_set_label (view_selection_model conf w g) = []"
  by (auto simp: filter_empty_conv
      dest!: texture_atlases_cases write_model_cases view_selection_model_cases)

text \<open>The loop over the loaded labeling, in closed form.\<close>

lemma accepted_prefix_neq:
  "label \<in> set ls \<Longrightarrow> label > nv \<Longrightarrow> accepted_prefix nv ls \<noteq> ls"
  by (auto simp: accepted_prefix_def)

lemma accepted_prefix_all:
  "(accepted_prefix nv ls = ls) = list_all (\<lambda>label. label \<le> nv) ls"
  by (auto simp: accepted_prefix_def list_all_iff not_less)

lemma accepted_prefix_first_offending:
  assumes "k < length ls" and "ls ! k > nv" and "\<forall>j<k. ls ! j \<le> nv"
  shows "accepted_prefix nv ls = take k ls"
  unfolding accepted_prefix_def
  using assms by (intro takeWhile_eq_take_P_nth) (auto simp: not_less)

lemma labels_store_all:
  "length ls = length (labels g) \<Longrightarrow> labels (store g 0 ls) = ls"
  by (simp add: store_def)

lemma transfer_labeling_eq:
  "i + length ls \<le> length (labels g) \<Longrightarrow>
   transfer_labeling nv ls i g =
     (set_label_events i (accepted_prefix nv ls)
        @ (if accepted_prefix nv ls = ls then [] else [Stderr wrong_labeling]),
      if accepted_prefix nv ls = ls then None else Some EXIT_FAILURE,
      store g i (accepted_prefix nv ls))"
proof (induction ls arbitrary: i g)
  case Nil
  then show ?case by (simp add: accepted_prefix_def store_def set_label_events_def)
next
  case (Cons l ls)
  show ?case
  proof (cases "l > nv")
    case True
    then show ?thesis by (simp add: accepted_prefix_def store_def set_label_events_def)
  next
    case False
    have len: "Suc i + length ls \<le> length (labels (set_label g i l))"
      using Cons.prems by (simp add: set_label_def)
    have st: "store (set_label g i l) (Suc i) (accepted_prefix nv ls) = store g i (l # accepted_prefix nv ls)"
      using Cons.prems
      by (simp add: store_def set_label_def upd_conv_take_nth_drop take_Suc_conv_app_nth add.commute)
    have pre: "accepted_prefix nv (l # ls) = l # accepted_prefix nv ls"
      using False by (simp add: accepted_prefix_def)
    show ?thesis
      using False Cons.IH [OF len] st pre
      by (simp add: upt_conv_Cons set_label_events_def del: upt_Suc)
  qed
qed

lemma load_labeling_eq:
  assumes "length (labels g) = num_nodes g"
  shows "load_labeling conf w g =
    (if length (vector_from_file_result w) \<noteq> num_nodes g
     then ([Stdout ''Loading labeling from file... '', VectorFromFile (labeling_file conf),
            Stderr wrong_labeling], Some EXIT_FAILURE, g)
     else if accepted_prefix (texture_views_size w) (vector_from_file_result w) = vector_from_file_result w
     then ([Stdout ''Loading labeling from file... '', VectorFromFile (labeling_file conf)]
            @ set_label_events 0 (vector_from_file_result w) @ [Stdout ''done.''],
           None, store g 0 (vector_from_file_result w))
     else ([Stdout ''Loading labeling from file... '', VectorFromFile (labeling_file conf)]
            @ set_label_events 0 (accepted_prefix (texture_views_size w) (vector_from_file_result w))
            @ [Stderr wrong_labeling],
           Some EXIT_FAILURE,
           store g 0 (accepted_prefix (texture_views_size w) (vector_from_file_result w))))"
proof (cases "length (vector_from_file_result w) \<noteq> num_nodes g")
  case True
  then show ?thesis by (simp add: load_labeling_def Let_def)
next
  case False
  then have "0 + length (vector_from_file_result w) \<le> length (labels g)"
    using assms by simp
  from transfer_labeling_eq [OF this, of "texture_views_size w"] False
  show ?thesis by (simp add: load_labeling_def Let_def)
qed

text \<open>A run that reads its labeling from a file: the three ways it can go.\<close>

lemma main_load_labeling:
  assumes "loaded w conf mesh" and "labeling_file conf \<noteq> []"
  shows "main w =
    (if length (vector_from_file_result w) \<noteq> length (get_faces mesh) div 3
     then \<lparr>events = loaded_events conf @ graph_events mesh
              @ [Stdout ''Loading labeling from file... '', VectorFromFile (labeling_file conf),
                 Stderr wrong_labeling],
           status = EXIT_FAILURE, graph_at_exit = Some (adjacency_graph w mesh)\<rparr>
     else if accepted_prefix (texture_views_size w) (vector_from_file_result w) = vector_from_file_result w
     then \<lparr>events = loaded_events conf @ graph_events mesh
              @ [Stdout ''Loading labeling from file... '', VectorFromFile (labeling_file conf)]
              @ set_label_events 0 (vector_from_file_result w) @ [Stdout ''done.'']
              @ texture_atlases conf w (store (adjacency_graph w mesh) 0 (vector_from_file_result w))
              @ write_model conf
              @ view_selection_model conf w (store (adjacency_graph w mesh) 0 (vector_from_file_result w)),
           status = EXIT_SUCCESS,
           graph_at_exit = Some (store (adjacency_graph w mesh) 0 (vector_from_file_result w))\<rparr>
     else \<lparr>events = loaded_events conf @ graph_events mesh
              @ [Stdout ''Loading labeling from file... '', VectorFromFile (labeling_file conf)]
              @ set_label_events 0 (accepted_prefix (texture_views_size w) (vector_from_file_result w))
              @ [Stderr wrong_labeling],
           status = EXIT_FAILURE,
           graph_at_exit = Some (store (adjacency_graph w mesh) 0
              (accepted_prefix (texture_views_size w) (vector_from_file_result w)))\<rparr>)"
proof -
  have inv: "length (labels (adjacency_graph w mesh)) = num_nodes (adjacency_graph w mesh)"
    by (simp add: labels_adjacency_graph num_nodes_adjacency_graph)
  show ?thesis
    using assms
    by (simp add: main_def startup_loaded select_views_def load_labeling_eq [OF inv]
        num_nodes_adjacency_graph graph_events_def Let_def)
qed

text \<open>A run that got past the loading of the mesh, and its view selection.\<close>

lemma main_loaded:
  assumes "loaded w conf mesh"
  shows "main w =
    (case select_views conf w (adjacency_graph w mesh) of
       (es, Some st, g) \<Rightarrow>
         \<lparr>events = loaded_events conf @ graph_events mesh @ es, status = st,
          graph_at_exit = Some g\<rparr>
     | (es, None, g) \<Rightarrow>
         \<lparr>events = loaded_events conf @ graph_events mesh @ es @ texture_atlases conf w g
            @ write_model conf @ view_selection_model conf w g,
          status = EXIT_SUCCESS, graph_at_exit = Some g\<rparr>)"
  using assms
  by (simp add: main_def startup_loaded graph_events_def Let_def split: prod.splits option.splits)

lemma num_nodes_view_selection: "num_nodes (view_selection w g) = num_nodes g"
  by (simp add: view_selection_def num_nodes_def)

lemma num_nodes_set_label: "num_nodes (set_label g i l) = num_nodes g"
  by (simp add: set_label_def num_nodes_def)

lemma transfer_labeling_props:
  "transfer_labeling nv ls i g = (es, ex, g') \<Longrightarrow>
     num_nodes g' = num_nodes g \<and> list_all early es \<and> ex \<noteq> Some EXIT_SUCCESS
     \<and> (\<forall>s\<in>set (stages es). stage_index s = 2)"
proof (induction ls arbitrary: i g es ex g')
  case Nil
  then show ?case by simp
next
  case (Cons l ls)
  show ?case
  proof (cases "l > nv")
    case True
    with Cons.prems show ?thesis by (auto simp: early_def)
  next
    case False
    obtain es1 ex1 g1 where r: "transfer_labeling nv ls (Suc i) (set_label g i l) = (es1, ex1, g1)"
      by (cases "transfer_labeling nv ls (Suc i) (set_label g i l)") auto
    from Cons.IH [OF r] Cons.prems False r show ?thesis
      by (auto simp: early_def num_nodes_set_label)
  qed
qed

lemma sorted_constant: "\<forall>s\<in>set ss. f s = (c::nat) \<Longrightarrow> sorted (map f ss)"
  by (induction ss) auto

lemma compute_labeling_props:
  "compute_labeling conf w g = (es, ex, g') \<Longrightarrow>
     num_nodes g' = num_nodes g \<and> list_all early es \<and> ex \<noteq> Some EXIT_SUCCESS
     \<and> sorted (stage_seq es)"
  by (auto simp: compute_labeling_def Let_def early_def stage_seq_def num_nodes_view_selection
      split: if_splits option.splits)

lemma load_labeling_props:
  assumes "load_labeling conf w g = (es, ex, g')"
  shows "num_nodes g' = num_nodes g \<and> list_all early es \<and> ex \<noteq> Some EXIT_SUCCESS
     \<and> sorted (stage_seq es)"
proof (cases "length (vector_from_file_result w) \<noteq> num_nodes g")
  case True
  with assms show ?thesis
    by (auto simp: load_labeling_def Let_def early_def stage_seq_def)
next
  case False
  obtain es1 ex1 g1 where
    r: "transfer_labeling (texture_views_size w) (vector_from_file_result w) 0 g = (es1, ex1, g1)"
    by (cases "transfer_labeling (texture_views_size w) (vector_from_file_result w) 0 g") auto
  note p = transfer_labeling_props [OF r]
  from p have st: "sorted (map stage_index (stages es1))"
    by (intro sorted_constant) blast
  from p have lab: "\<And>s. s \<in> set (stages es1) \<Longrightarrow> stage_index s = 2"
    by blast
  have es: "es = [Stdout ''Loading labeling from file... '', VectorFromFile (labeling_file conf)]
      @ es1 @ (if ex1 = None then [Stdout ''done.''] else [])"
    and ex: "ex = ex1" and g': "g' = g1"
    using assms False r by (auto simp: load_labeling_def Let_def split: option.splits)
  have "sorted (stage_seq es)"
    using st lab by (auto simp: es stage_seq_def stages_append sorted_append)
  moreover have "list_all early es"
    using p by (simp add: es early_def)
  ultimately show ?thesis
    using p ex g' by simp
qed

lemma select_views_props:
  "select_views conf w g = (es, ex, g') \<Longrightarrow>
     num_nodes g' = num_nodes g \<and> list_all early es \<and> ex \<noteq> Some EXIT_SUCCESS
     \<and> sorted (stage_seq es)"
  using compute_labeling_props load_labeling_props
  by (simp add: select_views_def split: if_splits)

lemma early_cases:
  "early e \<Longrightarrow> \<not> is_global_stage e \<and> e \<noteq> LocalSeamLeveling \<and> e \<noteq> GlobalSeamLeveling
     \<and> \<not> is_generate_texture_patches e"
  by (cases e) (simp_all add: early_def)

lemma early_stage_seq: "list_all early es \<Longrightarrow> \<forall>x\<in>set (stage_seq es). x \<le> 2"
  by (induction es) (auto simp: stage_seq_def early_def split: option.splits)

lemma main_success:
  assumes "loaded w conf mesh" and "status (main w) = EXIT_SUCCESS"
  shows "\<exists>pre g. events (main w) = pre @ texture_atlases conf w g @ write_model conf
            @ view_selection_model conf w g
          \<and> graph_at_exit (main w) = Some g \<and> list_all early pre \<and> sorted (stage_seq pre)"
proof -
  obtain es ex g where r: "select_views conf w (adjacency_graph w mesh) = (es, ex, g)"
    by (cases "select_views conf w (adjacency_graph w mesh)") auto
  note p = select_views_props [OF r]
  have ex: "ex = None"
    using assms(2) p by (cases ex) (auto simp: main_loaded [OF assms(1)] r)
  have "events (main w) = (loaded_events conf @ graph_events mesh @ es)
      @ texture_atlases conf w g @ write_model conf @ view_selection_model conf w g"
    and "graph_at_exit (main w) = Some g"
    by (simp_all add: main_loaded [OF assms(1)] r ex)
  moreover have "list_all early (loaded_events conf @ graph_events mesh @ es)"
    using p by (simp add: loaded_events_def graph_events_def early_def)
  moreover have "sorted (stage_seq (loaded_events conf @ graph_events mesh @ es))"
    using p by (simp add: loaded_events_def graph_events_def stage_seq_def)
  ultimately show ?thesis by blast
qed

lemma main_failure:
  assumes "loaded w conf mesh" and "status (main w) \<noteq> EXIT_SUCCESS"
  shows "sorted (stage_seq (events (main w)))"
proof -
  obtain es ex g where r: "select_views conf w (adjacency_graph w mesh) = (es, ex, g)"
    by (cases "select_views conf w (adjacency_graph w mesh)") auto
  note p = select_views_props [OF r]
  obtain st where ex: "ex = Some st"
    using assms(2) by (cases ex) (auto simp: main_loaded [OF assms(1)] r)
  have "events (main w) = loaded_events conf @ graph_events mesh @ es"
    by (simp add: main_loaded [OF assms(1)] r ex)
  then show ?thesis
    using p by (simp add: loaded_events_def graph_events_def stage_seq_def)
qed

lemma startup_cases:
  "(\<exists>es. startup w = Inl (es, EXIT_FAILURE) \<and> stages es = [])
   \<or> (\<exists>conf mesh. loaded w conf mesh)"
  by (auto simp: startup_def loaded_def split: sum.splits)

lemma main_not_loaded:
  "startup w = Inl (es, st) \<Longrightarrow> events (main w) = es \<and> status (main w) = st"
  by (simp add: main_def)

text \<open>The stages of the parts of a run.\<close>

lemma stage_seq_simps:
  "stage_seq [] = []"
  "stage_seq (e # es) = (case stage_of e of None \<Rightarrow> stage_seq es | Some s \<Rightarrow> stage_index s # stage_seq es)"
  "stage_seq (xs @ ys) = stage_seq xs @ stage_seq ys"
  by (simp_all add: stage_seq_def stages_append split: option.splits)

lemma stage_seq_adjust_colors:
  "stage_seq (map (\<lambda>i. AdjustColors i (f i)) xs) = replicate (length xs) 4"
  by (induction xs) (simp_all add: stage_seq_simps)

lemma stage_seq_global_leveling:
  "stage_seq (fst (global_leveling conf w tps)) =
     (if global_seam_leveling (settings conf) then [4] else replicate (length tps) 4)"
  by (simp add: global_leveling_def calculate_validity_masks_def stage_seq_simps
      stage_seq_adjust_colors)

lemma stage_seq_local_leveling:
  "stage_seq (fst (local_leveling conf w tps)) =
     (if local_seam_leveling (settings conf) then [4] else [])"
  by (simp add: local_leveling_def stage_seq_simps)

lemma stage_seq_texture_atlases:
  "stage_seq (texture_atlases conf w g) =
     3 # (if global_seam_leveling (settings conf) then [4]
          else replicate (length (generate_texture_patches_result w g)) 4)
       @ (if local_seam_leveling (settings conf) then [4] else []) @ [5]"
  by (simp add: texture_atlases_def split_beta stage_seq_simps stage_seq_global_leveling
      stage_seq_local_leveling)

lemma sorted_stage_seq_texture_atlases:
  "sorted (stage_seq (texture_atlases conf w g))
   \<and> (\<forall>x\<in>set (stage_seq (texture_atlases conf w g)). 3 \<le> x \<and> x \<le> 5)"
  by (simp add: stage_seq_texture_atlases sorted_append)

lemma stage_seq_write_model: "stage_seq (write_model conf) = [6, 6]"
  by (simp add: write_model_def stage_seq_def)

lemma stages_view_selection_model:
  "stages (view_selection_model conf w g) =
     (if write_view_selection_model conf
      then [PatchGeneration, AtlasPacking, ModelBuilding, ModelBuilding] else [])"
  by (simp add: view_selection_model_def)

text \<open>Seam leveling in the trace, and the zero adjustment of a patch.\<close>

lemma stage_seq_heads:
  "stage_seq (loaded_events conf) = []"
  "stage_seq (graph_events mesh) = [0, 0]"
  by (simp_all add: loaded_events_def graph_events_def stage_seq_def)

lemma stage_seq_view_selection_model:
  "stage_seq (view_selection_model conf w g) =
     (if write_view_selection_model conf then [3, 5, 6, 6] else [])"
  by (simp add: stage_seq_def stages_view_selection_model)

lemma local_in_texture_atlases:
  "(LocalSeamLeveling \<in> set (texture_atlases conf w g)) = local_seam_leveling (settings conf)"
  by (auto simp: texture_atlases_def split_beta global_leveling_def local_leveling_def
      calculate_validity_masks_def)

lemma global_in_texture_atlases:
  "(GlobalSeamLeveling \<in> set (texture_atlases conf w g)) = global_seam_leveling (settings conf)"
  by (auto simp: texture_atlases_def split_beta global_leveling_def local_leveling_def
      calculate_validity_masks_def)

lemma no_leveling_after_atlases:
  "e \<in> set (write_model conf @ view_selection_model conf w g) \<Longrightarrow>
     \<not> is_global_stage e \<and> e \<noteq> LocalSeamLeveling \<and> e \<noteq> GlobalSeamLeveling"
  by (auto dest!: write_model_cases view_selection_model_cases)

lemma no_local_in_global_leveling:
  "LocalSeamLeveling \<notin> set (fst (global_leveling conf w tps))"
  by (auto simp: global_leveling_def calculate_validity_masks_def)

lemma no_global_stage_dropWhile:
  "\<not> list_ex is_global_stage xs \<Longrightarrow> \<not> list_ex is_global_stage (dropWhile P xs)"
  by (auto simp: list_ex_iff dest: set_dropWhileD)

lemma after_local_in_texture_atlases:
  assumes "\<not> list_ex is_global_stage rest"
  shows "\<not> list_ex is_global_stage
           (dropWhile (\<lambda>e. e \<noteq> LocalSeamLeveling) (texture_atlases conf w g @ rest))"
proof -
  let ?P = "\<lambda>e. e \<noteq> LocalSeamLeveling"
  let ?tps1 = "snd (global_leveling conf w (generate_texture_patches_result w g))"
  let ?es1 = "fst (global_leveling conf w (generate_texture_patches_result w g))"
  let ?tail = "[Stdout ''Generating texture atlases:'',
                GenerateTextureAtlases (snd (local_leveling conf w ?tps1))] @ rest"
  have ta: "texture_atlases conf w g @ rest =
      ([Stdout ''Generating texture patches:'', GenerateTexturePatches g] @ ?es1)
      @ (fst (local_leveling conf w ?tps1) @ ?tail)"
    by (simp add: texture_atlases_def split_beta)
  have skip: "dropWhile ?P (texture_atlases conf w g @ rest)
      = dropWhile ?P (fst (local_leveling conf w ?tps1) @ ?tail)"
    unfolding ta using no_local_in_global_leveling [of conf w]
    by (intro dropWhile_append2) auto
  have tail: "\<not> list_ex is_global_stage ?tail"
    using assms by simp
  show ?thesis
  proof (cases "local_seam_leveling (settings conf)")
    case True
    then show ?thesis
      using tail by (simp add: skip local_leveling_def)
  next
    case False
    then have "dropWhile ?P (fst (local_leveling conf w ?tps1) @ ?tail) = dropWhile ?P ?tail"
      by (simp add: local_leveling_def)
    with skip have eq: "dropWhile ?P (texture_atlases conf w g @ rest) = dropWhile ?P ?tail"
      by (rule trans)
    show ?thesis
      unfolding eq by (rule no_global_stage_dropWhile [OF tail])
  qed
qed

lemma patch_adjust_values_ok:
  "patch_ok tp \<Longrightarrow> patch_adjust_values tp = replicate (length (patch_faces tp) * 3) vec_zero"
  by (simp add: patch_ok_def patch_adjust_values_def)

lemma vec_zero_simps:
  "vec_scale k vec_zero = vec_zero"
  "vec_add v vec_zero = v"
  by (cases v; simp add: vec_zero_def)+

lemma adjust_pixel_zero:
  assumes "case covered_by px of None \<Rightarrow> True | Some (f, a, b, c) \<Rightarrow> f < n"
  shows "color (adjust_pixel (replicate (n * 3) vec_zero) px) = color px
     \<and> valid (adjust_pixel (replicate (n * 3) vec_zero) px) = (covered_by px \<noteq> None)"
  using assms
  by (auto simp: adjust_pixel_def vec_zero_simps split: option.splits)

lemma adjust_colors_zero:
  assumes "patch_ok tp"
  shows "map color (pixels (adjust_colors tp (replicate (length (patch_faces tp) * 3) vec_zero)))
           = map color (pixels tp)
     \<and> map valid (pixels (adjust_colors tp (replicate (length (patch_faces tp) * 3) vec_zero)))
           = map (\<lambda>px. covered_by px \<noteq> None) (pixels tp)
     \<and> patch_faces (adjust_colors tp (replicate (length (patch_faces tp) * 3) vec_zero))
           = patch_faces tp"
  using assms
  by (auto simp: adjust_colors_def patch_ok_def list_all_iff adjust_pixel_zero)

lemma filter_global_stage_texture_atlases:
  "\<not> global_seam_leveling (settings conf) \<Longrightarrow>
   filter is_global_stage (texture_atlases conf w g) =
     map (\<lambda>i. AdjustColors i (patch_adjust_values (generate_texture_patches_result w g ! i)))
       (sort_key (omp_rank w) [0..<length (generate_texture_patches_result w g)])"
  by (simp add: texture_atlases_def split_beta global_leveling_def local_leveling_def
      calculate_validity_masks_def filter_map comp_def)

lemma atlases_of_adjusted_patches:
  "\<not> global_seam_leveling (settings conf) \<Longrightarrow>
   GenerateTextureAtlases
     (snd (local_leveling conf w
        (map (\<lambda>tp. adjust_colors tp (patch_adjust_values tp)) (generate_texture_patches_result w g))))
   \<in> set (texture_atlases conf w g)"
  by (simp add: texture_atlases_def split_beta global_leveling_def calculate_validity_masks_def)

lemma filter_global_stage_main:
  assumes "loaded w conf mesh"
    and "status (main w) = EXIT_SUCCESS"
    and "graph_at_exit (main w) = Some g"
    and "\<not> global_seam_leveling (settings conf)"
  shows "filter is_global_stage (events (main w)) =
     map (\<lambda>i. AdjustColors i (patch_adjust_values (generate_texture_patches_result w g ! i)))
       (sort_key (omp_rank w) [0..<length (generate_texture_patches_result w g)])"
proof -
  from main_success [OF assms(1,2)] assms(3) obtain pre where
    ev: "events (main w) = pre @ texture_atlases conf w g
           @ (write_model conf @ view_selection_model conf w g)"
    and pre: "list_all early pre"
    by auto
  have f_pre: "filter is_global_stage pre = []"
    using pre early_cases by (auto simp: filter_empty_conv list_all_iff)
  have f_rest: "filter is_global_stage (write_model conf) = []"
    "filter is_global_stage (view_selection_model conf w g) = []"
    using no_leveling_after_atlases [of _ conf w g] unfolding filter_empty_conv by auto
  show ?thesis
    by (simp add: ev f_pre f_rest filter_global_stage_texture_atlases [OF assms(4)])
qed

lemma atlases_of_adjusted_patches_main:
  assumes "loaded w conf mesh"
    and "status (main w) = EXIT_SUCCESS"
    and "graph_at_exit (main w) = Some g"
    and "\<not> global_seam_leveling (settings conf)"
  shows "GenerateTextureAtlases
     (snd (local_leveling conf w
        (map (\<lambda>tp. adjust_colors tp (patch_adjust_values tp)) (generate_texture_patches_result w g))))
   \<in> set (events (main w))"
proof -
  from main_success [OF assms(1,2)] assms(3) obtain pre where
    "events (main w) = pre @ texture_atlases conf w g
           @ (write_model conf @ view_selection_model conf w g)"
    by auto
  then show ?thesis
    using atlases_of_adjusted_patches [OF assms(4), of w g] by simp
qed

text \<open>The example runs.\<close>

lemma loaded_example: "loaded (example_world conf nv ls) conf tetrahedron"
  by (simp add: loaded_def example_world_def)

lemma loaded_example_upd:
  "loaded ((example_world conf nv ls)\<lparr>invalid_label := i\<rparr>) conf tetrahedron"
  by (simp add: loaded_def example_world_def)

lemma example_world_sel:
  "texture_views_size (example_world conf nv ls) = nv"
  "vector_from_file_result (example_world conf nv ls) = ls"
  "invalid_label (example_world conf nv ls) = 7"
  "load_from_file_exception (example_world conf nv ls) = Some ''Not a SPT file!''"
  "generate_texture_patches_result (example_world conf nv ls) g = [example_patch]"
  "global_seam_leveling_result (example_world conf nv ls) tps = tps"
  "local_seam_leveling_result (example_world conf nv ls) tps = tps"
  "generate_debug_patches_result (example_world conf nv ls) g = [example_patch]"
  by (simp_all add: example_world_def)

lemma num_faces_tetrahedron: "length (get_faces tetrahedron) div 3 = 4"
  by (simp add: tetrahedron_def)

lemma replicate_2: "replicate 2 x = [x, x]"
  by (simp add: numeral_2_eq_2)

lemma example_conf_sel:
  "labeling_file (example_conf lf dc gl ll dbg) = lf"
  "data_cost_file (example_conf lf dc gl ll dbg) = dc"
  "global_seam_leveling (settings (example_conf lf dc gl ll dbg)) = gl"
  "local_seam_leveling (settings (example_conf lf dc gl ll dbg)) = ll"
  "write_view_selection_model (example_conf lf dc gl ll dbg) = dbg"
  "write_intermediate_results (example_conf lf dc gl ll dbg) = False"
  "write_timings (example_conf lf dc gl ll dbg) = False"
  by (simp_all add: example_conf_def)

lemma example_mrf_run:
  "main (example_world (example_conf [] [] gl ll dbg) nv ls) =
     \<lparr>events = loaded_events (example_conf [] [] gl ll dbg) @ graph_events tetrahedron
        @ [Stdout ''View selection:'', CalculateDataCosts, ViewSelection]
        @ texture_atlases (example_conf [] [] gl ll dbg)
            (example_world (example_conf [] [] gl ll dbg) nv ls)
            (view_selection (example_world (example_conf [] [] gl ll dbg) nv ls)
               (adjacency_graph (example_world (example_conf [] [] gl ll dbg) nv ls) tetrahedron))
        @ write_model (example_conf [] [] gl ll dbg)
        @ view_selection_model (example_conf [] [] gl ll dbg)
            (example_world (example_conf [] [] gl ll dbg) nv ls)
            (view_selection (example_world (example_conf [] [] gl ll dbg) nv ls)
               (adjacency_graph (example_world (example_conf [] [] gl ll dbg) nv ls) tetrahedron)),
      status = EXIT_SUCCESS,
      graph_at_exit = Some (view_selection (example_world (example_conf [] [] gl ll dbg) nv ls)
               (adjacency_graph (example_world (example_conf [] [] gl ll dbg) nv ls) tetrahedron))\<rparr>"
  by (simp add: main_loaded [OF loaded_example] select_views_def compute_labeling_def
      example_conf_sel Let_def)

lemma three_patch_world_sel:
  "loaded (three_patch_world conf) conf tetrahedron"
  "generate_texture_patches_result (three_patch_world conf) g
     = [example_patch, small_patch, example_patch]"
  "omp_rank (three_patch_world conf) = (\<lambda>i. if i = 0 then 0 else 3 - i)"
  by (simp_all add: three_patch_world_def loaded_def example_world_def)

lemma three_patch_mrf_run:
  "status (main (three_patch_world (example_conf [] [] gl ll dbg))) = EXIT_SUCCESS"
  "graph_at_exit (main (three_patch_world (example_conf [] [] gl ll dbg)))
     = Some (view_selection (three_patch_world (example_conf [] [] gl ll dbg))
               (adjacency_graph (three_patch_world (example_conf [] [] gl ll dbg)) tetrahedron))"
  by (simp_all add: main_loaded [OF three_patch_world_sel(1)] select_views_def
      compute_labeling_def example_conf_sel Let_def)

lemma three_patch_schedule:
  "sort_key (\<lambda>i. if i = 0 then 0 else 3 - i) [0..<length [a, b, c]] = [0, 2, 1::nat]"
  by (simp add: upt_rec numeral_3_eq_3 numeral_2_eq_2)

lemma three_patch_indices: "[0..<length [a, b, c]] = [0, 1, 2]"
  by (simp add: upt_rec numeral_2_eq_2)

subsection \<open>The range check on a loaded labeling\<close>

text \<open>
  The check of line 147 is \<open>label > texture_views.size()\<close>, so a label equal to the
  number of views passes it. Two runs on the tetrahedron show it: with two views and the
  labeling \<open>0, 2, 2, 0\<close>, and with three views and the labeling \<open>0, 2, 3, 0\<close>, patches
  are generated and the run ends with \<open>EXIT_SUCCESS\<close>. The label 2 is not within
  \<open>[0, 2)\<close> and the label 3 is not within \<open>[0, 3)\<close>, and no value of the invalid marker
  is both 2 and 3: whatever the marker is, one of the two runs goes on with a label
  outside the set the spec names.
\<close>

theorem label_equal_num_views_accepted:
  "\<forall>invalid.
     patch_generated (main ((example_world (example_conf ''labeling.vec'' [] False True False) 2
        [0, 2, 2, 0])\<lparr>invalid_label := invalid\<rparr>))
     \<and> status (main ((example_world (example_conf ''labeling.vec'' [] False True False) 2
        [0, 2, 2, 0])\<lparr>invalid_label := invalid\<rparr>)) = EXIT_SUCCESS
     \<and> patch_generated (main ((example_world (example_conf ''labeling.vec'' [] False True False) 3
        [0, 2, 3, 0])\<lparr>invalid_label := invalid\<rparr>))
     \<and> status (main ((example_world (example_conf ''labeling.vec'' [] False True False) 3
        [0, 2, 3, 0])\<lparr>invalid_label := invalid\<rparr>)) = EXIT_SUCCESS
     \<and> \<not> (spec_label_ok invalid 2 2 \<and> spec_label_ok invalid 3 3)"
proof
  fix invalid
  let ?c = "example_conf ''labeling.vec'' [] False True False"
  have c: "labeling_file ?c \<noteq> []"
    by (simp add: example_conf_def)
  have "\<not> (spec_label_ok invalid 2 2 \<and> spec_label_ok invalid 3 3)"
    by (simp add: spec_label_ok_def)
  moreover have "patch_generated (main ((example_world ?c 2 [0, 2, 2, 0])\<lparr>invalid_label := invalid\<rparr>))
      \<and> status (main ((example_world ?c 2 [0, 2, 2, 0])\<lparr>invalid_label := invalid\<rparr>)) = EXIT_SUCCESS"
    using texture_atlases_patch
    by (simp add: main_load_labeling [OF loaded_example_upd c] num_faces_tetrahedron
        patch_generated_def accepted_prefix_def example_world_sel)
  moreover have "patch_generated (main ((example_world ?c 3 [0, 2, 3, 0])\<lparr>invalid_label := invalid\<rparr>))
      \<and> status (main ((example_world ?c 3 [0, 2, 3, 0])\<lparr>invalid_label := invalid\<rparr>)) = EXIT_SUCCESS"
    using texture_atlases_patch
    by (simp add: main_load_labeling [OF loaded_example_upd c] num_faces_tetrahedron
        patch_generated_def accepted_prefix_def example_world_sel)
  ultimately show "patch_generated (main ((example_world ?c 2 [0, 2, 2, 0])\<lparr>invalid_label := invalid\<rparr>))
     \<and> status (main ((example_world ?c 2 [0, 2, 2, 0])\<lparr>invalid_label := invalid\<rparr>)) = EXIT_SUCCESS
     \<and> patch_generated (main ((example_world ?c 3 [0, 2, 3, 0])\<lparr>invalid_label := invalid\<rparr>))
     \<and> status (main ((example_world ?c 3 [0, 2, 3, 0])\<lparr>invalid_label := invalid\<rparr>)) = EXIT_SUCCESS
     \<and> \<not> (spec_label_ok invalid 2 2 \<and> spec_label_ok invalid 3 3)"
    by blast
qed

text \<open>
  C1, as the code has it. When a labeling file is supplied and the loaded vector has as
  many elements as the graph has nodes, every label is checked against the number of
  views, bound included: patches are generated, and the run ends with \<open>EXIT_SUCCESS\<close>,
  exactly when every label is at most \<open>texture_views.size()\<close>; when some label is
  greater, the run ends with \<open>EXIT_FAILURE\<close>, its last act being the diagnostic on
  \<open>std::cerr\<close>, and no patch is generated.
\<close>

theorem label_range_check:
  assumes "loaded w conf mesh"
    and "labeling_file conf \<noteq> []"
    and "length (vector_from_file_result w) = num_nodes (adjacency_graph w mesh)"
  shows "patch_generated (main w)
           = list_all (\<lambda>label. label \<le> texture_views_size w) (vector_from_file_result w)
     \<and> status (main w)
           = (if list_all (\<lambda>label. label \<le> texture_views_size w) (vector_from_file_result w)
              then EXIT_SUCCESS else EXIT_FAILURE)
     \<and> (list_all (\<lambda>label. label \<le> texture_views_size w) (vector_from_file_result w)
         \<or> last (events (main w)) = Stderr wrong_labeling)"
  using assms(3) no_patch_loaded_events [of conf mesh] no_patch_set_label_events
    texture_atlases_patch
  by (simp add: main_load_labeling [OF assms(1,2)] num_nodes_adjacency_graph patch_generated_def
      accepted_prefix_all)

theorem label_range_check_witness:
  "loaded (example_world (example_conf ''labeling.vec'' [] False True False) 2 [0, 2, 2, 0])
     (example_conf ''labeling.vec'' [] False True False) tetrahedron
   \<and> labeling_file (example_conf ''labeling.vec'' [] False True False) \<noteq> []
   \<and> length (vector_from_file_result
         (example_world (example_conf ''labeling.vec'' [] False True False) 2 [0, 2, 2, 0]))
       = num_nodes (adjacency_graph
           (example_world (example_conf ''labeling.vec'' [] False True False) 2 [0, 2, 2, 0])
           tetrahedron)
   \<and> patch_generated
        (main (example_world (example_conf ''labeling.vec'' [] False True False) 2 [0, 2, 2, 0]))
   \<and> status (main (example_world (example_conf ''labeling.vec'' [] False True False) 2
        [0, 2, 2, 0])) = EXIT_SUCCESS"
proof -
  let ?c = "example_conf ''labeling.vec'' [] False True False"
  let ?w = "example_world ?c 2 [0, 2, 2, 0]"
  have h1: "loaded ?w ?c tetrahedron"
    by (rule loaded_example)
  have h2: "labeling_file ?c \<noteq> []"
    by (simp add: example_conf_def)
  have h3: "length (vector_from_file_result ?w) = num_nodes (adjacency_graph ?w tetrahedron)"
    by (simp add: num_nodes_adjacency_graph num_faces_tetrahedron example_world_sel)
  have ok: "list_all (\<lambda>label. label \<le> texture_views_size ?w) (vector_from_file_result ?w)"
    by (simp add: example_world_sel)
  from label_range_check [OF h1 h2 h3] ok h1 h2 h3 show ?thesis by simp
qed

subsection \<open>A labeling file of the wrong length\<close>

text \<open>
  C2. When the labeling file is used and the loaded vector does not have as many
  elements as the graph has nodes, the run ends by \<open>std::exit(EXIT_FAILURE)\<close>, the
  last thing it does is print the diagnostic to \<open>std::cerr\<close>, and
  \<open>generate_texture_patches\<close> has not been called (nor has any label been written).
\<close>

theorem labeling_length_mismatch_aborts:
  assumes "loaded w conf mesh"
    and "labeling_file conf \<noteq> []"
    and "length (vector_from_file_result w) \<noteq> num_nodes (adjacency_graph w mesh)"
  shows "status (main w) = EXIT_FAILURE \<and> exit_code (status (main w)) \<noteq> 0
         \<and> last (events (main w)) = Stderr wrong_labeling
         \<and> \<not> patch_generated (main w)
         \<and> filter is_set_label (events (main w)) = []"
  using assms(3) no_patch_loaded_events [of conf mesh]
  by (simp add: main_load_labeling [OF assms(1,2)] num_nodes_adjacency_graph patch_generated_def
      loaded_events_def graph_events_def)

theorem labeling_length_mismatch_aborts_witness:
  "loaded (example_world (example_conf ''labeling.vec'' [] False True False) 2 [2, 2, 0])
     (example_conf ''labeling.vec'' [] False True False) tetrahedron
   \<and> labeling_file (example_conf ''labeling.vec'' [] False True False) \<noteq> []
   \<and> length (vector_from_file_result
         (example_world (example_conf ''labeling.vec'' [] False True False) 2 [2, 2, 0])) = 3
   \<and> num_nodes (adjacency_graph
         (example_world (example_conf ''labeling.vec'' [] False True False) 2 [2, 2, 0])
         tetrahedron) = 4
   \<and> status (main (example_world (example_conf ''labeling.vec'' [] False True False) 2 [2, 2, 0]))
       = EXIT_FAILURE
   \<and> last (events (main (example_world (example_conf ''labeling.vec'' [] False True False) 2
         [2, 2, 0]))) = Stderr wrong_labeling
   \<and> \<not> patch_generated
         (main (example_world (example_conf ''labeling.vec'' [] False True False) 2 [2, 2, 0]))"
proof -
  let ?c = "example_conf ''labeling.vec'' [] False True False"
  let ?w = "example_world ?c 2 [2, 2, 0]"
  have h1: "loaded ?w ?c tetrahedron"
    by (rule loaded_example)
  have h2: "labeling_file ?c \<noteq> []"
    by (simp add: example_conf_def)
  have h3: "length (vector_from_file_result ?w) = 3"
    by (simp add: example_world_sel)
  have h4: "num_nodes (adjacency_graph ?w tetrahedron) = 4"
    by (simp add: num_nodes_adjacency_graph num_faces_tetrahedron)
  have h5: "length (vector_from_file_result ?w) \<noteq> num_nodes (adjacency_graph ?w tetrahedron)"
    using h3 h4 by simp
  from labeling_length_mismatch_aborts [OF h1 h2 h5] h1 h2 h3 h4 show ?thesis by simp
qed

subsection \<open>A label above the number of views\<close>

text \<open>
  C3. When the labeling file is used and the loaded vector holds a label strictly greater
  than \<open>texture_views.size()\<close>, the run ends by \<open>std::exit(EXIT_FAILURE)\<close>, the last
  thing it does is print the diagnostic to \<open>std::cerr\<close>, and
  \<open>generate_texture_patches\<close> has not been called. (Whatever the length of the vector:
  of a wrong length, it is refused before the labels are looked at.)
\<close>

theorem label_above_num_views_aborts:
  assumes "loaded w conf mesh"
    and "labeling_file conf \<noteq> []"
    and "label \<in> set (vector_from_file_result w)"
    and "label > texture_views_size w"
  shows "status (main w) = EXIT_FAILURE \<and> exit_code (status (main w)) \<noteq> 0
         \<and> last (events (main w)) = Stderr wrong_labeling
         \<and> \<not> patch_generated (main w)"
  using accepted_prefix_neq [OF assms(3,4)] no_patch_loaded_events [of conf mesh]
    no_patch_set_label_events
  by (simp add: main_load_labeling [OF assms(1,2)] patch_generated_def)

theorem label_above_num_views_aborts_witness:
  "loaded (example_world (example_conf ''labeling.vec'' [] False True False) 2 [2, 3, 0, 2])
     (example_conf ''labeling.vec'' [] False True False) tetrahedron
   \<and> labeling_file (example_conf ''labeling.vec'' [] False True False) \<noteq> []
   \<and> 3 \<in> set (vector_from_file_result
         (example_world (example_conf ''labeling.vec'' [] False True False) 2 [2, 3, 0, 2]))
   \<and> 3 > texture_views_size
         (example_world (example_conf ''labeling.vec'' [] False True False) 2 [2, 3, 0, 2])
   \<and> status (main (example_world (example_conf ''labeling.vec'' [] False True False) 2
         [2, 3, 0, 2])) = EXIT_FAILURE
   \<and> last (events (main (example_world (example_conf ''labeling.vec'' [] False True False) 2
         [2, 3, 0, 2]))) = Stderr wrong_labeling
   \<and> \<not> patch_generated
         (main (example_world (example_conf ''labeling.vec'' [] False True False) 2 [2, 3, 0, 2]))"
proof -
  let ?c = "example_conf ''labeling.vec'' [] False True False"
  let ?w = "example_world ?c 2 [2, 3, 0, 2]"
  have h1: "loaded ?w ?c tetrahedron"
    by (rule loaded_example)
  have h2: "labeling_file ?c \<noteq> []"
    by (simp add: example_conf_def)
  have h3: "3 \<in> set (vector_from_file_result ?w)"
    by (simp add: example_world_sel)
  have h4: "3 > texture_views_size ?w"
    by (simp add: example_world_sel)
  from label_above_num_views_aborts [OF h1 h2 h3 h4] h1 h2 h3 h4 show ?thesis by simp
qed

subsection \<open>The labeling file takes the place of view selection\<close>

text \<open>
  C4. When a labeling file is supplied (\<open>conf.labeling_file\<close> not empty), neither
  \<open>calculate_data_costs\<close> nor \<open>view_selection\<close> is called, and the labels of the graph
  come from the file alone: the calls of \<open>set_label\<close> are, in order from index 0, those
  of a front part of the loaded vector, and a graph handed to
  \<open>generate_texture_patches\<close> has the loaded vector as its labels.
\<close>

theorem labeling_file_replaces_view_selection:
  assumes "loaded w conf mesh"
    and "labeling_file conf \<noteq> []"
  shows "CalculateDataCosts \<notin> set (events (main w))
     \<and> ViewSelection \<notin> set (events (main w))
     \<and> (\<exists>m. filter is_set_label (events (main w))
              = set_label_events 0 (take m (vector_from_file_result w)))
     \<and> (\<forall>g. GenerateTexturePatches g \<in> set (events (main w)) \<longrightarrow>
           labels g = vector_from_file_result w)"
proof -
  let ?ls = "vector_from_file_result w"
  let ?ok = "accepted_prefix (texture_views_size w) ?ls"
  let ?g = "store (adjacency_graph w mesh) 0 ?ls"
  note m = main_load_labeling [OF assms]
  consider (len) "length ?ls \<noteq> length (get_faces mesh) div 3"
    | (good) "length ?ls = length (get_faces mesh) div 3" "?ok = ?ls"
    | (bad) "length ?ls = length (get_faces mesh) div 3" "?ok \<noteq> ?ls"
    by blast
  then show ?thesis
  proof cases
    case len
    have "filter is_set_label (events (main w)) = set_label_events 0 (take 0 ?ls)"
      using len by (simp add: m filter_set_label_head set_label_events_def)
    moreover have "\<And>e. e \<in> set (events (main w)) \<Longrightarrow>
        e \<noteq> CalculateDataCosts \<and> e \<noteq> ViewSelection \<and> \<not> is_generate_texture_patches e"
      using len by (auto simp: m dest!: loaded_events_cases graph_events_cases)
    ultimately show ?thesis by fastforce
  next
    case good
    have ev: "events (main w) = (loaded_events conf @ graph_events mesh)
        @ [Stdout ''Loading labeling from file... '', VectorFromFile (labeling_file conf)]
        @ set_label_events 0 ?ls @ [Stdout ''done.'']
        @ (texture_atlases conf w ?g @ write_model conf @ view_selection_model conf w ?g)"
      using good by (simp add: m)
    have "filter is_set_label (events (main w)) = set_label_events 0 (take (length ?ls) ?ls)"
      by (simp add: ev filter_set_label_head filter_set_label_events filter_set_label_tail)
    moreover have "labels ?g = ?ls"
      using good(1) by (simp add: labels_store_all labels_adjacency_graph)
    moreover have "\<And>e. e \<in> set (events (main w)) \<Longrightarrow>
        e \<noteq> CalculateDataCosts \<and> e \<noteq> ViewSelection
        \<and> (is_generate_texture_patches e \<longrightarrow> e = GenerateTexturePatches ?g)"
      unfolding ev
      by (auto dest!: loaded_events_cases graph_events_cases set_label_events_cases
          texture_atlases_cases write_model_cases view_selection_model_cases)
    ultimately show ?thesis by fastforce
  next
    case bad
    have "?ok = take (length ?ok) ?ls"
      unfolding accepted_prefix_def by (rule takeWhile_eq_take)
    then have "filter is_set_label (events (main w)) = set_label_events 0 (take (length ?ok) ?ls)"
      using bad by (simp add: m filter_set_label_head filter_set_label_events)
    moreover have "\<And>e. e \<in> set (events (main w)) \<Longrightarrow>
        e \<noteq> CalculateDataCosts \<and> e \<noteq> ViewSelection \<and> \<not> is_generate_texture_patches e"
      using bad
      by (auto simp: m dest!: loaded_events_cases graph_events_cases set_label_events_cases)
    ultimately show ?thesis by fastforce
  qed
qed

theorem labeling_file_replaces_view_selection_witness:
  "loaded (example_world (example_conf ''labeling.vec'' [] False True False) 2 [0, 2, 2, 0])
     (example_conf ''labeling.vec'' [] False True False) tetrahedron
   \<and> labeling_file (example_conf ''labeling.vec'' [] False True False) \<noteq> []
   \<and> GenerateTexturePatches
        (store (adjacency_graph
           (example_world (example_conf ''labeling.vec'' [] False True False) 2 [0, 2, 2, 0])
           tetrahedron) 0 [0, 2, 2, 0])
       \<in> set (events (main (example_world (example_conf ''labeling.vec'' [] False True False) 2
            [0, 2, 2, 0])))
   \<and> labels (store (adjacency_graph
           (example_world (example_conf ''labeling.vec'' [] False True False) 2 [0, 2, 2, 0])
           tetrahedron) 0 [0, 2, 2, 0]) = [0, 2, 2, 0]
   \<and> CalculateDataCosts \<notin> set (events (main (example_world
        (example_conf ''labeling.vec'' [] False True False) 2 [0, 2, 2, 0])))
   \<and> ViewSelection \<notin> set (events (main (example_world
        (example_conf ''labeling.vec'' [] False True False) 2 [0, 2, 2, 0])))"
proof -
  let ?c = "example_conf ''labeling.vec'' [] False True False"
  let ?w = "example_world ?c 2 [0, 2, 2, 0]"
  let ?g = "store (adjacency_graph ?w tetrahedron) 0 [0, 2, 2, 0]"
  have h1: "loaded ?w ?c tetrahedron"
    by (rule loaded_example)
  have h2: "labeling_file ?c \<noteq> []"
    by (simp add: example_conf_def)
  have h3: "GenerateTexturePatches ?g \<in> set (events (main ?w))"
    by (simp add: main_load_labeling [OF h1 h2] num_faces_tetrahedron accepted_prefix_def
        example_world_sel texture_atlases_patch_mem)
  have v: "vector_from_file_result ?w = [0, 2, 2, 0]"
    by (simp add: example_world_sel)
  from labeling_file_replaces_view_selection [OF h1 h2] h3 v
  have "labels ?g = [0, 2, 2, 0] \<and> CalculateDataCosts \<notin> set (events (main ?w))
     \<and> ViewSelection \<notin> set (events (main ?w))"
    by metis
  with h1 h2 h3 show ?thesis by blast
qed

subsection \<open>Labels written before the range check fails\<close>

text \<open>
  C10. The transfer of a loaded labeling into the graph is not atomic with respect to
  the range check. The length is checked before any label is written: of a wrong length,
  the graph is left as it was built and \<open>set_label\<close> is never called. The range check
  is interleaved with the writes: when the vector has the right length and its first
  label above the number of views is at index \<open>k\<close>, the run ends with \<open>EXIT_FAILURE\<close>
  and the graph then holds the labels of the indices below \<open>k\<close>, the nodes from \<open>k\<close>
  on being as they were built.
\<close>

theorem labels_stored_before_abort:
  assumes "loaded w conf mesh"
    and "labeling_file conf \<noteq> []"
    and "k < length (vector_from_file_result w)"
    and "vector_from_file_result w ! k > texture_views_size w"
    and "\<forall>j<k. vector_from_file_result w ! j \<le> texture_views_size w"
  shows "status (main w) = EXIT_FAILURE
     \<and> (\<exists>g. graph_at_exit (main w) = Some g
          \<and> labels g =
              (if length (vector_from_file_result w) = num_nodes (adjacency_graph w mesh)
               then take k (vector_from_file_result w)
                    @ replicate (num_nodes (adjacency_graph w mesh) - k) (invalid_label w)
               else replicate (num_nodes (adjacency_graph w mesh)) (invalid_label w)))
     \<and> filter is_set_label (events (main w)) =
          (if length (vector_from_file_result w) = num_nodes (adjacency_graph w mesh)
           then set_label_events 0 (take k (vector_from_file_result w)) else [])"
proof -
  let ?ls = "vector_from_file_result w"
  have pre: "accepted_prefix (texture_views_size w) ?ls = take k ?ls"
    using assms(3-5) by (rule accepted_prefix_first_offending)
  have ne: "take k ?ls \<noteq> ?ls"
    using assms(3) by (metis length_take min.absorb2 nat_less_le)
  have len: "length (take k ?ls) = k"
    using assms(3) by simp
  show ?thesis
    using ne len assms(3)
    by (simp add: main_load_labeling [OF assms(1,2)] pre num_nodes_adjacency_graph
        filter_set_label_head filter_set_label_events store_def labels_adjacency_graph)
qed

theorem labels_stored_before_abort_witness:
  "loaded (example_world (example_conf ''labeling.vec'' [] False True False) 2 [2, 0, 5, 0])
     (example_conf ''labeling.vec'' [] False True False) tetrahedron
   \<and> labeling_file (example_conf ''labeling.vec'' [] False True False) \<noteq> []
   \<and> vector_from_file_result
        (example_world (example_conf ''labeling.vec'' [] False True False) 2 [2, 0, 5, 0]) ! 2 = 5
   \<and> texture_views_size
        (example_world (example_conf ''labeling.vec'' [] False True False) 2 [2, 0, 5, 0]) = 2
   \<and> status (main (example_world (example_conf ''labeling.vec'' [] False True False) 2
        [2, 0, 5, 0])) = EXIT_FAILURE
   \<and> (\<exists>g. graph_at_exit (main (example_world (example_conf ''labeling.vec'' [] False True False)
              2 [2, 0, 5, 0])) = Some g
          \<and> labels g = [2, 0, 7, 7])
   \<and> filter is_set_label (events (main (example_world
        (example_conf ''labeling.vec'' [] False True False) 2 [2, 0, 5, 0])))
       = [SetLabel 0 2, SetLabel 1 0]"
proof -
  let ?c = "example_conf ''labeling.vec'' [] False True False"
  let ?w = "example_world ?c 2 [2, 0, 5, 0]"
  have h1: "loaded ?w ?c tetrahedron"
    by (rule loaded_example)
  have h2: "labeling_file ?c \<noteq> []"
    by (simp add: example_conf_def)
  have v: "vector_from_file_result ?w = [2, 0, 5, 0]" "texture_views_size ?w = 2"
    "invalid_label ?w = 7"
    by (simp_all add: example_world_sel)
  have h3: "2 < length (vector_from_file_result ?w)"
    by (simp add: v)
  have h4: "vector_from_file_result ?w ! 2 > texture_views_size ?w"
    by (simp add: v)
  have h5: "\<forall>j<2. vector_from_file_result ?w ! j \<le> texture_views_size ?w"
    by (auto simp: v dest!: less_2_cases)
  have n: "num_nodes (adjacency_graph ?w tetrahedron) = 4"
    by (simp add: num_nodes_adjacency_graph num_faces_tetrahedron)
  from labels_stored_before_abort [OF h1 h2 h3 h4 h5] h1 h2
  show ?thesis
    by (simp add: v n set_label_events_def upt_rec replicate_2)
qed

subsection \<open>A data-cost file that cannot be loaded\<close>

text \<open>
  C8. When the data-cost file is loaded (no labeling file, a data-cost file given) and
  \<open>load_from_file\<close> throws its \<open>util::FileException\<close>, the run is fatal: it prints
  \<open>failed!\<close> and then the exception's \<open>what()\<close>, the underlying cause, to
  \<open>std::cerr\<close>, and ends with \<open>EXIT_FAILURE\<close>, a non-zero status. Nothing follows
  the report: of the pipeline, only the graph construction and the attempt to load have
  run.
\<close>

theorem data_cost_load_failure_is_fatal:
  assumes "loaded w conf mesh"
    and "labeling_file conf = []"
    and "data_cost_file conf \<noteq> []"
    and "load_from_file_exception w = Some cause"
  shows "status (main w) = EXIT_FAILURE \<and> exit_code (status (main w)) \<noteq> 0
     \<and> events (main w) = loaded_events conf @ graph_events mesh
          @ [Stdout ''View selection:'', Stdout (CHR 0x09 # ''Loading data cost file... ''),
             LoadFromFile (data_cost_file conf), Stdout ''failed!'', Stderr cause]
     \<and> stages (events (main w)) = [GraphConstruction, GraphConstruction, DataCosts]"
  using assms(2-4)
  by (simp add: main_loaded [OF assms(1)] select_views_def compute_labeling_def
      loaded_events_def graph_events_def)

theorem data_cost_load_failure_is_fatal_witness:
  "loaded (example_world (example_conf [] ''costs.spt'' False True False) 2 [])
     (example_conf [] ''costs.spt'' False True False) tetrahedron
   \<and> labeling_file (example_conf [] ''costs.spt'' False True False) = []
   \<and> data_cost_file (example_conf [] ''costs.spt'' False True False) = ''costs.spt''
   \<and> load_from_file_exception (example_world (example_conf [] ''costs.spt'' False True False) 2 [])
       = Some ''Not a SPT file!''
   \<and> status (main (example_world (example_conf [] ''costs.spt'' False True False) 2 []))
       = EXIT_FAILURE
   \<and> last (events (main (example_world (example_conf [] ''costs.spt'' False True False) 2 [])))
       = Stderr ''Not a SPT file!''
   \<and> stages (events (main (example_world (example_conf [] ''costs.spt'' False True False) 2 [])))
       = [GraphConstruction, GraphConstruction, DataCosts]"
proof -
  let ?c = "example_conf [] ''costs.spt'' False True False"
  let ?w = "example_world ?c 2 []"
  have h1: "loaded ?w ?c tetrahedron"
    by (rule loaded_example)
  have h2: "labeling_file ?c = []"
    by (simp add: example_conf_def)
  have h3: "data_cost_file ?c = ''costs.spt''"
    by (simp add: example_conf_def)
  have h3': "data_cost_file ?c \<noteq> []"
    by (simp add: example_conf_def)
  have h4: "load_from_file_exception ?w = Some ''Not a SPT file!''"
    by (simp add: example_world_sel)
  note t = data_cost_load_failure_is_fatal [OF h1 h2 h3' h4]
  from t have "last (events (main ?w)) = Stderr ''Not a SPT file!''"
    by simp
  with t h1 h2 h3 h4 show ?thesis
    by blast
qed

subsection \<open>One node per face\<close>

text \<open>
  C9. For any loaded mesh, the adjacency graph is built with exactly as many nodes as the
  mesh has faces, the number of faces being \<open>mesh->get_faces().size() / 3\<close>: the
  constructor is called with that number, the graph it builds has that many nodes, and
  so has the graph when the run ends.
\<close>

theorem graph_has_one_node_per_face:
  assumes "loaded w conf mesh"
  shows "num_nodes (adjacency_graph w mesh) = length (get_faces mesh) div 3
     \<and> GraphCtor (length (get_faces mesh) div 3) \<in> set (events (main w))
     \<and> (\<exists>g. graph_at_exit (main w) = Some g \<and> num_nodes g = length (get_faces mesh) div 3)"
proof -
  obtain es ex g where r: "select_views conf w (adjacency_graph w mesh) = (es, ex, g)"
    by (cases "select_views conf w (adjacency_graph w mesh)") auto
  from select_views_props [OF r] have "num_nodes g = length (get_faces mesh) div 3"
    by (simp add: num_nodes_adjacency_graph)
  then show ?thesis
    by (simp add: main_loaded [OF assms] r num_nodes_adjacency_graph graph_events_def
        split: option.splits)
qed

theorem graph_has_one_node_per_face_witness:
  "loaded (example_world (example_conf [] [] False True False) 2 []) (example_conf [] [] False True False)
     tetrahedron
   \<and> length (get_faces tetrahedron) = 12
   \<and> num_nodes (adjacency_graph (example_world (example_conf [] [] False True False) 2 []) tetrahedron) = 4
   \<and> GraphCtor 4 \<in> set (events (main (example_world (example_conf [] [] False True False) 2 [])))
   \<and> (\<exists>g. graph_at_exit (main (example_world (example_conf [] [] False True False) 2 [])) = Some g
          \<and> num_nodes g = 4)"
proof -
  let ?c = "example_conf [] [] False True False"
  let ?w = "example_world ?c 2 []"
  have h1: "loaded ?w ?c tetrahedron"
    by (rule loaded_example)
  have l: "length (get_faces tetrahedron) = 12"
    by (simp add: tetrahedron_def)
  from graph_has_one_node_per_face [OF h1] h1 l show ?thesis
    by (simp add: num_faces_tetrahedron)
qed

subsection \<open>The validity masks when global seam leveling is off\<close>

text \<open>
  C5. When global seam leveling is disabled, a run that comes to the texture patches
  still runs the adjustment step for every patch: the events of the global stage are,
  in whatever order the parallel loop makes them, one call of \<open>adjust_colors\<close> per
  generated patch, each with a vector of \<open>get_faces().size() * 3\<close> zero adjustments,
  and the patches so adjusted are the ones that go on to local leveling and atlas
  packing. For every patch the step computes the validity mask (a pixel is valid exactly
  when a face of the patch covers it) and leaves the colours of the patch as they were.
\<close>

theorem validity_masks_without_global_leveling:
  assumes "loaded w conf mesh"
    and "status (main w) = EXIT_SUCCESS"
    and "graph_at_exit (main w) = Some g"
    and "\<not> global_seam_leveling (settings conf)"
    and "\<forall>tp\<in>set (generate_texture_patches_result w g). patch_ok tp"
  shows "mset (filter is_global_stage (events (main w))) =
           mset (map (\<lambda>i. AdjustColors i
                  (replicate (length (patch_faces (generate_texture_patches_result w g ! i)) * 3)
                     vec_zero))
             [0..<length (generate_texture_patches_result w g)])
     \<and> GenerateTextureAtlases
          (snd (local_leveling conf w
             (map (\<lambda>tp. adjust_colors tp (replicate (length (patch_faces tp) * 3) vec_zero))
                (generate_texture_patches_result w g))))
        \<in> set (events (main w))
     \<and> (\<forall>tp\<in>set (generate_texture_patches_result w g).
           map color (pixels (adjust_colors tp (replicate (length (patch_faces tp) * 3) vec_zero)))
             = map color (pixels tp)
           \<and> map valid (pixels (adjust_colors tp (replicate (length (patch_faces tp) * 3) vec_zero)))
             = map (\<lambda>px. covered_by px \<noteq> None) (pixels tp))"
proof -
  let ?tps = "generate_texture_patches_result w g"
  have vals: "\<And>tp. tp \<in> set ?tps \<Longrightarrow>
      patch_adjust_values tp = replicate (length (patch_faces tp) * 3) vec_zero"
    using assms(5) by (simp add: patch_adjust_values_ok)
  have "mset (filter is_global_stage (events (main w))) =
      mset (map (\<lambda>i. AdjustColors i (patch_adjust_values (?tps ! i))) [0..<length ?tps])"
    by (simp add: filter_global_stage_main [OF assms(1-4)])
  also have "map (\<lambda>i. AdjustColors i (patch_adjust_values (?tps ! i))) [0..<length ?tps]
      = map (\<lambda>i. AdjustColors i
          (replicate (length (patch_faces (?tps ! i)) * 3) vec_zero)) [0..<length ?tps]"
    using vals by (intro map_cong) auto
  finally have 1: "mset (filter is_global_stage (events (main w))) =
      mset (map (\<lambda>i. AdjustColors i
        (replicate (length (patch_faces (?tps ! i)) * 3) vec_zero)) [0..<length ?tps])" .
  have "map (\<lambda>tp. adjust_colors tp (patch_adjust_values tp)) ?tps
      = map (\<lambda>tp. adjust_colors tp (replicate (length (patch_faces tp) * 3) vec_zero)) ?tps"
    using vals by (intro map_cong) auto
  with atlases_of_adjusted_patches_main [OF assms(1-4)]
  have 2: "GenerateTextureAtlases
      (snd (local_leveling conf w
         (map (\<lambda>tp. adjust_colors tp (replicate (length (patch_faces tp) * 3) vec_zero)) ?tps)))
      \<in> set (events (main w))"
    by simp
  have 3: "\<forall>tp\<in>set ?tps.
      map color (pixels (adjust_colors tp (replicate (length (patch_faces tp) * 3) vec_zero)))
        = map color (pixels tp)
      \<and> map valid (pixels (adjust_colors tp (replicate (length (patch_faces tp) * 3) vec_zero)))
        = map (\<lambda>px. covered_by px \<noteq> None) (pixels tp)"
    using assms(5) adjust_colors_zero by blast
  from 1 2 3 show ?thesis by blast
qed

text \<open>
  The run of the witness has three patches and a schedule that is not the index order:
  the calls come for the patches 0, 2, 1.
\<close>

theorem validity_masks_without_global_leveling_witness:
  "loaded (three_patch_world (example_conf [] [] False True False))
     (example_conf [] [] False True False) tetrahedron
   \<and> status (main (three_patch_world (example_conf [] [] False True False))) = EXIT_SUCCESS
   \<and> \<not> global_seam_leveling (settings (example_conf [] [] False True False))
   \<and> patch_ok example_patch \<and> patch_ok small_patch
   \<and> filter is_global_stage (events (main (three_patch_world (example_conf [] [] False True False))))
       = [AdjustColors 0 (replicate 6 vec_zero), AdjustColors 2 (replicate 6 vec_zero),
          AdjustColors 1 (replicate 3 vec_zero)]
   \<and> mset (filter is_global_stage
         (events (main (three_patch_world (example_conf [] [] False True False)))))
       = mset [AdjustColors 0 (replicate 6 vec_zero), AdjustColors 1 (replicate 3 vec_zero),
               AdjustColors 2 (replicate 6 vec_zero)]
   \<and> map color (pixels (adjust_colors example_patch (replicate 6 vec_zero)))
       = [(1, 2, 3), (4, 5, 6), (7, 8, 9)]
   \<and> map valid (pixels (adjust_colors example_patch (replicate 6 vec_zero)))
       = [True, True, False]
   \<and> map color (pixels (adjust_colors small_patch (replicate 3 vec_zero))) = [(5, 5, 5)]
   \<and> map valid (pixels (adjust_colors small_patch (replicate 3 vec_zero))) = [True]"
proof -
  let ?c = "example_conf [] [] False True False"
  let ?w = "three_patch_world ?c"
  let ?g = "view_selection ?w (adjacency_graph ?w tetrahedron)"
  have h1: "loaded ?w ?c tetrahedron"
    by (rule three_patch_world_sel)
  have h2: "status (main ?w) = EXIT_SUCCESS"
    by (rule three_patch_mrf_run)
  have h3: "graph_at_exit (main ?w) = Some ?g"
    by (rule three_patch_mrf_run)
  have h4: "\<not> global_seam_leveling (settings ?c)"
    by (simp add: example_conf_sel)
  have ok: "patch_ok example_patch" "patch_ok small_patch"
    by (simp_all add: patch_ok_def example_patch_def small_patch_def)
  have h5: "\<forall>tp\<in>set (generate_texture_patches_result ?w ?g). patch_ok tp"
    using ok by (simp add: three_patch_world_sel)
  have n: "length (patch_faces example_patch) * 3 = 6" "length (patch_faces small_patch) * 3 = 3"
    by (simp_all add: example_patch_def small_patch_def)
  have px: "map color (pixels example_patch) = [(1, 2, 3), (4, 5, 6), (7, 8, 9)]"
    "map (\<lambda>px. covered_by px \<noteq> None) (pixels example_patch) = [True, True, False]"
    "map color (pixels small_patch) = [(5, 5, 5)]"
    "map (\<lambda>px. covered_by px \<noteq> None) (pixels small_patch) = [True]"
    by (simp_all add: example_patch_def small_patch_def)
  have order: "filter is_global_stage (events (main ?w))
      = [AdjustColors 0 (replicate 6 vec_zero), AdjustColors 2 (replicate 6 vec_zero),
         AdjustColors 1 (replicate 3 vec_zero)]"
    using ok
    by (simp add: filter_global_stage_main [OF h1 h2 h3 h4] three_patch_world_sel
        three_patch_schedule patch_adjust_values_ok n)
  from validity_masks_without_global_leveling [OF h1 h2 h3 h4 h5]
  have "mset (filter is_global_stage (events (main ?w)))
       = mset [AdjustColors 0 (replicate 6 vec_zero), AdjustColors 1 (replicate 3 vec_zero),
               AdjustColors 2 (replicate 6 vec_zero)]
     \<and> map color (pixels (adjust_colors example_patch (replicate 6 vec_zero)))
         = [(1, 2, 3), (4, 5, 6), (7, 8, 9)]
     \<and> map valid (pixels (adjust_colors example_patch (replicate 6 vec_zero)))
         = [True, True, False]
     \<and> map color (pixels (adjust_colors small_patch (replicate 3 vec_zero))) = [(5, 5, 5)]
     \<and> map valid (pixels (adjust_colors small_patch (replicate 3 vec_zero))) = [True]"
    by (simp add: three_patch_world_sel three_patch_indices n px del: not_None_eq)
  with h1 h2 h4 ok order show ?thesis by blast
qed

subsection \<open>When local seam leveling runs\<close>

text \<open>
  Two runs on the tetrahedron, both to the end. With global leveling off and local
  leveling on, \<open>local_seam_leveling\<close> is called although \<open>global_seam_leveling\<close>
  never ran; with global leveling on and local leveling off, \<open>global_seam_leveling\<close>
  has run to its end and \<open>local_seam_leveling\<close> is not called. So local leveling is
  not conditioned on the global-leveling stage.
\<close>

theorem local_leveling_without_global:
  "LocalSeamLeveling \<in> set (events (main (example_world (example_conf [] [] False True False) 2 [])))
   \<and> GlobalSeamLeveling \<notin> set (events (main (example_world (example_conf [] [] False True False) 2 [])))
   \<and> GlobalSeamLeveling \<in> set (events (main (example_world (example_conf [] [] True False False) 2 [])))
   \<and> LocalSeamLeveling \<notin> set (events (main (example_world (example_conf [] [] True False False) 2 [])))"
  using no_leveling_after_atlases
  by (auto simp: example_mrf_run local_in_texture_atlases global_in_texture_atlases example_conf_sel
      loaded_events_def graph_events_def)

text \<open>
  C6, as the code has it. In every run that comes to the texture patches, local seam
  leveling executes exactly when its own flag \<open>settings.local_seam_leveling\<close> is set,
  whatever the flag of global leveling (which alone decides whether
  \<open>global_seam_leveling\<close> executes); and when it executes it comes after the whole
  global stage: from the call of \<open>local_seam_leveling\<close> on, the trace holds neither
  \<open>global_seam_leveling\<close> nor an \<open>adjust_colors\<close> of the validity-mask loop.
\<close>

theorem local_leveling_gated_by_own_flag:
  assumes "loaded w conf mesh" and "status (main w) = EXIT_SUCCESS"
  shows "(LocalSeamLeveling \<in> set (events (main w))) = local_seam_leveling (settings conf)
     \<and> (GlobalSeamLeveling \<in> set (events (main w))) = global_seam_leveling (settings conf)
     \<and> \<not> list_ex is_global_stage (dropWhile (\<lambda>e. e \<noteq> LocalSeamLeveling) (events (main w)))"
proof -
  from main_success [OF assms] obtain pre g where
    ev: "events (main w) = pre @ texture_atlases conf w g
           @ (write_model conf @ view_selection_model conf w g)"
    and pre: "list_all early pre"
    by auto
  have pre': "\<And>e. e \<in> set pre \<Longrightarrow> e \<noteq> LocalSeamLeveling \<and> e \<noteq> GlobalSeamLeveling"
    using pre early_cases by (auto simp: list_all_iff)
  have rest: "\<not> list_ex is_global_stage (write_model conf @ view_selection_model conf w g)"
    using no_leveling_after_atlases [of _ conf w g] unfolding list_ex_iff by blast
  have "(LocalSeamLeveling \<in> set (events (main w))) = local_seam_leveling (settings conf)"
    using pre' no_leveling_after_atlases [of LocalSeamLeveling conf w g]
    by (auto simp: ev local_in_texture_atlases)
  moreover have "(GlobalSeamLeveling \<in> set (events (main w))) = global_seam_leveling (settings conf)"
    using pre' no_leveling_after_atlases [of GlobalSeamLeveling conf w g]
    by (auto simp: ev global_in_texture_atlases)
  moreover have "dropWhile (\<lambda>e. e \<noteq> LocalSeamLeveling) (events (main w))
      = dropWhile (\<lambda>e. e \<noteq> LocalSeamLeveling)
          (texture_atlases conf w g @ (write_model conf @ view_selection_model conf w g))"
    unfolding ev using pre' by (intro dropWhile_append2) blast
  ultimately show ?thesis
    using after_local_in_texture_atlases [OF rest] by simp
qed

theorem local_leveling_gated_by_own_flag_witness:
  "loaded (example_world (example_conf [] [] False True False) 2 [])
     (example_conf [] [] False True False) tetrahedron
   \<and> status (main (example_world (example_conf [] [] False True False) 2 [])) = EXIT_SUCCESS
   \<and> local_seam_leveling (settings (example_conf [] [] False True False))
   \<and> \<not> global_seam_leveling (settings (example_conf [] [] False True False))
   \<and> LocalSeamLeveling \<in> set (events (main (example_world (example_conf [] [] False True False) 2 [])))
   \<and> GlobalSeamLeveling \<notin> set (events (main (example_world (example_conf [] [] False True False) 2 [])))
   \<and> \<not> list_ex is_global_stage (dropWhile (\<lambda>e. e \<noteq> LocalSeamLeveling)
          (events (main (example_world (example_conf [] [] False True False) 2 []))))"
proof -
  let ?c = "example_conf [] [] False True False"
  let ?w = "example_world ?c 2 []"
  have h1: "loaded ?w ?c tetrahedron"
    by (rule loaded_example)
  have h2: "status (main ?w) = EXIT_SUCCESS"
    by (simp add: example_mrf_run)
  have f: "local_seam_leveling (settings ?c)" "\<not> global_seam_leveling (settings ?c)"
    by (simp_all add: example_conf_sel)
  from local_leveling_gated_by_own_flag [OF h1 h2] h1 h2 f show ?thesis
    by simp
qed

subsection \<open>The order of the stages\<close>

text \<open>
  A run with \<open>write_view_selection_model\<close> set (no labeling file, no data-cost file,
  one patch): after the model is built and saved, lines 233 to 252 generate texture
  patches, pack atlases and build a model once more. Numbering the stages from 0 (graph
  construction) to 6 (model building), the calls of the run are of the stages below, in
  this order: patch generation (3) begins after model building (6).
\<close>

theorem debug_pass_repeats_stages:
  "stage_seq (events (main (example_world (example_conf [] [] False True True) 2 [])))
     = [0, 0, 1, 2, 3, 4, 4, 5, 6, 6, 3, 5, 6, 6]
   \<and> \<not> sorted (stage_seq (events (main (example_world (example_conf [] [] False True True) 2 []))))"
proof -
  have "stage_seq (events (main (example_world (example_conf [] [] False True True) 2 [])))
     = [0, 0, 1, 2, 3, 4, 4, 5, 6, 6, 3, 5, 6, 6]"
    by (simp add: example_mrf_run stage_seq_simps stage_seq_heads stage_seq_texture_atlases
        stage_seq_write_model stage_seq_view_selection_model example_conf_sel example_world_sel)
  then show ?thesis by simp
qed

text \<open>
  C7, as the code has it. The trace of every run is a first part in which the stages come
  strictly in the sequence graph construction, data costs, labeling, patch generation,
  seam leveling, atlas packing, model building (each call returning before the next is
  made; a stage the run does not execute is left out, in its place), followed, when the
  run comes to its end with \<open>write_view_selection_model\<close> set, by a second pass of patch
  generation, atlas packing and model building (built, then saved), and by nothing
  otherwise.
\<close>

theorem stages_in_sequence_then_debug_pass:
  "\<exists>pre post. events (main w) = pre @ post \<and> sorted (stage_seq pre)
     \<and> stages post = (if debug_pass w
                       then [PatchGeneration, AtlasPacking, ModelBuilding, ModelBuilding]
                       else [])"
proof -
  consider (early_exit) es where "startup w = Inl (es, EXIT_FAILURE)" "stages es = []"
    | (failed) conf mesh where "loaded w conf mesh" "status (main w) \<noteq> EXIT_SUCCESS"
    | (complete) conf mesh where "loaded w conf mesh" "status (main w) = EXIT_SUCCESS"
    using startup_cases [of w] by blast
  then show ?thesis
  proof cases
    case early_exit
    then have "events (main w) = es @ []" "sorted (stage_seq es)" "\<not> debug_pass w"
      by (simp_all add: main_not_loaded stage_seq_def debug_pass_def)
    then show ?thesis by (metis stages.simps(1))
  next
    case failed
    then have "events (main w) = events (main w) @ []" "sorted (stage_seq (events (main w)))"
      "\<not> debug_pass w"
      by (simp_all add: main_failure debug_pass_def)
    then show ?thesis by (metis stages.simps(1))
  next
    case complete
    from main_success [OF complete] obtain pre g where
      ev: "events (main w) = (pre @ texture_atlases conf w g @ write_model conf)
         @ view_selection_model conf w g"
      and pre: "list_all early pre" "sorted (stage_seq pre)"
      by auto
    have "sorted (stage_seq (pre @ texture_atlases conf w g @ write_model conf))"
      using pre(2) early_stage_seq [OF pre(1)] sorted_stage_seq_texture_atlases [of conf w g]
      by (fastforce simp: stage_seq_simps(3) sorted_append stage_seq_write_model)
    moreover have "debug_pass w = write_view_selection_model conf"
      using complete by (simp add: debug_pass_def loaded_def)
    ultimately show ?thesis
      using ev stages_view_selection_model by metis
  qed
qed

end
